theory Spec2Isabelle
  imports Main "HOL-Library.Sublist" "HOL-Library.AList" "HOL-Library.Signed_Division"
begin

section \<open>JavaScript numbers and their text\<close>

text \<open>
  A number of JavaScript is a double. The numbers of this program are what
  \<^verbatim>\<open>parseInt\<close> returns and the products, sums and decrements of those: a double whose
  value is an integer (\<open>Num\<close>), \<^verbatim>\<open>Infinity\<close>, \<^verbatim>\<open>-Infinity\<close> or \<^verbatim>\<open>NaN\<close>. An optional
  parameter that is absent (\<^verbatim>\<open>undefined\<close>) is \<open>None\<close>.
\<close>

datatype number = Num int | PInf | NInf | NaN

text \<open>
  The double nearest to an integer. A double has 53 significant bits: an integer of
  magnitude \<open>m\<close> is halved \<open>e\<close> times until it is below \<open>2 ^ 53\<close>, and \<open>m\<close> becomes the
  nearest multiple of \<open>2 ^ e\<close>, the one with the even quotient when two are equally near.
  From \<open>2 ^ 1024\<close> on the result is infinite.
\<close>

function halvings :: "int \<Rightarrow> nat" where
  "halvings m = (if m < 2 ^ 53 then 0 else Suc (halvings (m div 2)))"
  by pat_completeness auto
termination
  by (relation "measure nat") auto

declare halvings.simps [simp del]

definition nearest :: "int \<Rightarrow> int" where
  "nearest m =
     (let e = halvings m; q = m div 2 ^ e; r = m mod 2 ^ e
      in if 2 * r < 2 ^ e then q * 2 ^ e
         else if 2 ^ e < 2 * r then (q + 1) * 2 ^ e
         else if even q then q * 2 ^ e
         else (q + 1) * 2 ^ e)"

definition double :: "int \<Rightarrow> number" where
  "double n =
     (let v = nearest \<bar>n\<bar>
      in if 2 ^ 1024 \<le> v then (if n < 0 then NInf else PInf)
         else Num (if n < 0 then - v else v))"

text \<open>\<^verbatim>\<open>ToBoolean\<close> of an optional number: \<^verbatim>\<open>undefined\<close>, \<^verbatim>\<open>NaN\<close> and \<^verbatim>\<open>0\<close> are falsy.\<close>

fun truthy :: "number option \<Rightarrow> bool" where
  "truthy None = False"
| "truthy (Some NaN) = False"
| "truthy (Some (Num n)) = (n \<noteq> 0)"
| "truthy (Some PInf) = True"
| "truthy (Some NInf) = True"

text \<open>\<^verbatim>\<open>ToNumber\<close> of an optional number: \<^verbatim>\<open>undefined\<close> becomes \<^verbatim>\<open>NaN\<close>.\<close>

fun ToNumber :: "number option \<Rightarrow> number" where
  "ToNumber None = NaN"
| "ToNumber (Some x) = x"

text \<open>
  \<^verbatim>\<open>x * y\<close> and \<^verbatim>\<open>x + y\<close>: the exact result rounded to a double; an infinity times 0
  and the sum of the two infinities are \<^verbatim>\<open>NaN\<close>.
\<close>

fun js_times :: "number \<Rightarrow> number \<Rightarrow> number" where
  "js_times NaN y = NaN"
| "js_times x NaN = NaN"
| "js_times (Num a) (Num b) = double (a * b)"
| "js_times (Num a) PInf = (if a = 0 then NaN else if 0 < a then PInf else NInf)"
| "js_times (Num a) NInf = (if a = 0 then NaN else if 0 < a then NInf else PInf)"
| "js_times PInf (Num b) = (if b = 0 then NaN else if 0 < b then PInf else NInf)"
| "js_times NInf (Num b) = (if b = 0 then NaN else if 0 < b then NInf else PInf)"
| "js_times PInf PInf = PInf"
| "js_times PInf NInf = NInf"
| "js_times NInf PInf = NInf"
| "js_times NInf NInf = PInf"

fun js_plus :: "number \<Rightarrow> number \<Rightarrow> number" where
  "js_plus NaN y = NaN"
| "js_plus x NaN = NaN"
| "js_plus (Num a) (Num b) = double (a + b)"
| "js_plus PInf NInf = NaN"
| "js_plus NInf PInf = NaN"
| "js_plus PInf y = PInf"
| "js_plus x PInf = PInf"
| "js_plus NInf y = NInf"
| "js_plus x NInf = NInf"

fun isNaN :: "number \<Rightarrow> bool" where
  "isNaN NaN = True"
| "isNaN (Num _) = False"
| "isNaN PInf = False"
| "isNaN NInf = False"

text \<open>
  \<^verbatim>\<open>x > 0\<close>, \<^verbatim>\<open>x <= 0\<close>, \<^verbatim>\<open>x < 0\<close> and \<^verbatim>\<open>x === 0\<close>: every comparison with \<^verbatim>\<open>NaN\<close> is
  false.
\<close>

fun js_gt0 :: "number \<Rightarrow> bool" where
  "js_gt0 (Num a) = (0 < a)"
| "js_gt0 PInf = True"
| "js_gt0 NInf = False"
| "js_gt0 NaN = False"

fun js_le0 :: "number \<Rightarrow> bool" where
  "js_le0 (Num a) = (a \<le> 0)"
| "js_le0 PInf = False"
| "js_le0 NInf = True"
| "js_le0 NaN = False"

fun js_lt0 :: "number \<Rightarrow> bool" where
  "js_lt0 (Num a) = (a < 0)"
| "js_lt0 PInf = False"
| "js_lt0 NInf = True"
| "js_lt0 NaN = False"

fun js_is0 :: "number \<Rightarrow> bool" where
  "js_is0 (Num a) = (a = 0)"
| "js_is0 PInf = False"
| "js_is0 NInf = False"
| "js_is0 NaN = False"

text \<open>
  \<^verbatim>\<open>Math.floor(x / d)\<close> and \<^verbatim>\<open>x % d\<close> for a divisor \<open>d\<close> that is a positive integer.
  The remainder has the sign of \<open>x\<close> and is exact; the quotient of the doubles is
  rounded before \<^verbatim>\<open>Math.floor\<close>, which does not show while \<open>x\<close> is at most \<open>2 ^ 53\<close>
  in magnitude: beyond, the floor given here is that of the exact quotient.
\<close>

fun floor_div :: "number \<Rightarrow> int \<Rightarrow> number" where
  "floor_div (Num a) d = Num (a div d)"
| "floor_div PInf d = PInf"
| "floor_div NInf d = NInf"
| "floor_div NaN d = NaN"

fun js_rem :: "number \<Rightarrow> int \<Rightarrow> number" where
  "js_rem (Num a) d = Num (a smod d)"
| "js_rem PInf d = NaN"
| "js_rem NInf d = NaN"
| "js_rem NaN d = NaN"

text \<open>
  \<^verbatim>\<open>Number.prototype.toString\<close>: the decimal digits of an integer, with a sign (the
  form it has below \<open>10 ^ 21\<close>), and the names of the other values.
\<close>

definition digit :: "nat \<Rightarrow> char" where
  "digit d = char_of (48 + d)"

function digits :: "nat \<Rightarrow> string" where
  "digits n = (if n < 10 then [digit n] else digits (n div 10) @ [digit (n mod 10)])"
  by pat_completeness auto
termination
  by (relation "measure (\<lambda>n. n)") auto

declare digits.simps [simp del]

definition toString :: "int \<Rightarrow> string" where
  "toString i = (if i < 0 then CHR ''-'' # digits (nat (- i)) else digits (nat i))"

fun Number_toString :: "number \<Rightarrow> string" where
  "Number_toString (Num i) = toString i"
| "Number_toString PInf = ''Infinity''"
| "Number_toString NInf = ''-Infinity''"
| "Number_toString NaN = ''NaN''"

section \<open>Timer: the countdown of one record (Timer.tsx)\<close>

text \<open>
  The browser keeps one table of active timers for \<^verbatim>\<open>setInterval\<close> and
  \<^verbatim>\<open>setTimeout\<close>; a handle is never handed out twice, and \<^verbatim>\<open>clearInterval\<close>
  removes the entry of a handle whatever its kind.
\<close>

datatype timer_kind = Interval | Timeout

text \<open>
  The component with its props, its state (\<open>paused\<close>, \<open>stopped\<close>, \<open>time\<close>), its
  instance fields, and the part of the browser it acts on: the document title, which
  it shares with everything else on the page, and its entries in the table of active
  timers with the next free handle. \<^verbatim>\<open>setState\<close> takes effect at once, as it does in
  a timer callback of a class component.
\<close>

record Timer =
  props_time :: number
  props_title :: "string option"
  paused :: bool
  stopped :: bool
  time :: number
  defaultTime :: number
  domTitle :: string
  elapsedTime :: number
  interval :: nat
  document_title :: string
  active_timers :: "(nat \<times> timer_kind) list"
  next_handle :: nat

definition constructor :: "number \<Rightarrow> string option \<Rightarrow> string \<Rightarrow> Timer" where
  "constructor ptime ptitle title0 =
     \<lparr> props_time = ptime, props_title = ptitle,
       paused = True, stopped = False, time = Num 0,
       defaultTime = ptime, domTitle = title0, elapsedTime = Num 0, interval = 0,
       document_title = title0, active_timers = [], next_handle = 1 \<rparr>"

definition componentDidMount :: "Timer \<Rightarrow> Timer" where
  "componentDidMount t = t\<lparr>time := props_time t\<rparr>"

definition mount :: "number \<Rightarrow> string option \<Rightarrow> string \<Rightarrow> Timer" where
  "mount ptime ptitle title0 = componentDidMount (constructor ptime ptitle title0)"

definition displayNumber :: "number \<Rightarrow> string" where
  "displayNumber v =
     (let number = Number_toString v
      in if length number < 2 then CHR ''0'' # number else number)"

definition getHours :: "Timer \<Rightarrow> string" where
  "getHours t = displayNumber (floor_div (time t) 3600)"

definition getMinutes :: "Timer \<Rightarrow> string" where
  "getMinutes t = displayNumber (floor_div (js_rem (time t) 3600) 60)"

definition getSeconds :: "Timer \<Rightarrow> string" where
  "getSeconds t = displayNumber (js_rem (js_rem (time t) 3600) 60)"

text \<open>The dash of the title is U+2013, three bytes in UTF-8.\<close>

definition en_dash :: string where
  "en_dash = [CHR 0xE2, CHR 0x80, CHR 0x93]"

definition updateTitle :: "Timer \<Rightarrow> Timer" where
  "updateTitle t =
     t\<lparr>document_title :=
         (case props_title t of None \<Rightarrow> ''Timer'' | Some s \<Rightarrow> if s = [] then ''Timer'' else s)
         @ '' '' @ en_dash @ '' ''
         @ getHours t @ '':'' @ getMinutes t @ '':'' @ getSeconds t\<rparr>"

text \<open>\<^verbatim>\<open>this.elapsedTime--\<close> adds \<open>-1\<close> as doubles are added.\<close>

definition countDown :: "Timer \<Rightarrow> Timer" where
  "countDown t =
     (let t1 = t\<lparr>elapsedTime := time t\<rparr>;
          t2 = t1\<lparr>elapsedTime := js_plus (elapsedTime t1) (Num (- 1))\<rparr>;
          t3 = (if js_lt0 (elapsedTime t2) then t2\<lparr>elapsedTime := Num 0\<rparr> else t2);
          t4 = t3\<lparr>time := elapsedTime t3\<rparr>
      in updateTitle t4)"

text \<open>\<^verbatim>\<open>setInterval\<close> and \<^verbatim>\<open>setTimeout\<close>: a new entry under the next free handle.\<close>

definition setTimer :: "timer_kind \<Rightarrow> Timer \<Rightarrow> Timer" where
  "setTimer k t =
     t\<lparr>active_timers := active_timers t @ [(next_handle t, k)],
       next_handle := Suc (next_handle t)\<rparr>"

definition clearInterval :: "nat \<Rightarrow> Timer \<Rightarrow> Timer" where
  "clearInterval h t = t\<lparr>active_timers := filter (\<lambda>e. fst e \<noteq> h) (active_timers t)\<rparr>"

definition stopTimer :: "Timer \<Rightarrow> Timer" where
  "stopTimer t =
     (let t1 = t\<lparr>stopped := True, time := defaultTime t\<rparr>;
          t2 = clearInterval (interval t1) t1
      in t2\<lparr>document_title := domTitle t2\<rparr>)"

definition pauseTimer :: "Timer \<Rightarrow> Timer" where
  "pauseTimer t = (let t1 = t\<lparr>paused := True\<rparr> in clearInterval (interval t1) t1)"

text \<open>The callback that \<open>startTimer\<close> hands to \<^verbatim>\<open>setInterval\<close>, run once a second.\<close>

definition interval_callback :: "Timer \<Rightarrow> Timer" where
  "interval_callback t =
     (let t1 = countDown t in if js_is0 (time t1) then setTimer Timeout t1 else t1)"

text \<open>The callback handed to \<^verbatim>\<open>setTimeout\<close>, run 160ms after a tick that saw 0.\<close>

definition timeout_callback :: "Timer \<Rightarrow> Timer" where
  "timeout_callback t = stopTimer t"

definition startTimer :: "Timer \<Rightarrow> Timer" where
  "startTimer t =
     (let t1 = t\<lparr>paused := False, stopped := False\<rparr>
      in (setTimer Interval t1)\<lparr>interval := next_handle t1\<rparr>)"

definition handleClick :: "Timer \<Rightarrow> Timer" where
  "handleClick t = (if paused t \<or> stopped t then startTimer t else pauseTimer t)"

text \<open>
  What can happen to a mounted timer: a click on the play/pause button, a click on the
  stop button, the browser running the callback of an active timer, and something else
  writing the document title, as every other timer of the Landing slide does when it
  ticks and when it stops. A timeout leaves the table when it runs; a handle that is
  not in the table runs nothing.
\<close>

datatype event = Click | Stop | Fire nat | Title string

fun step :: "event \<Rightarrow> Timer \<Rightarrow> Timer" where
  "step Click t = handleClick t"
| "step Stop t = stopTimer t"
| "step (Fire h) t =
     (case map_of (active_timers t) h of
        None \<Rightarrow> t
      | Some Interval \<Rightarrow> interval_callback t
      | Some Timeout \<Rightarrow> timeout_callback (clearInterval h t))"
| "step (Title s) t = t\<lparr>document_title := s\<rparr>"

fun run :: "event list \<Rightarrow> Timer \<Rightarrow> Timer" where
  "run [] t = t"
| "run (e # es) t = run es (step e t)"

text \<open>
  The phases of the specification, read from the two flags of the state. A timer that
  was never started has \<open>paused\<close> set and \<open>stopped\<close> not set.
\<close>

datatype phase = Stopped | Running | Paused

definition phase_of :: "Timer \<Rightarrow> phase" where
  "phase_of t = (if stopped t then Stopped else if paused t then Paused else Running)"

text \<open>
  What holds of every timer that was mounted and to which only these events happened:
  the handles in the table are below the next free one and pairwise different, the only
  interval in the table is the one in the field \<open>interval\<close> and it is there only while
  the timer runs, and a stopped timer shows its full duration.
\<close>

definition timer_inv :: "Timer \<Rightarrow> bool" where
  "timer_inv t \<longleftrightarrow>
     defaultTime t = props_time t \<and>
     interval t < next_handle t \<and>
     (\<forall>e \<in> set (active_timers t). fst e < next_handle t) \<and>
     distinct (map fst (active_timers t)) \<and>
     (\<forall>e \<in> set (active_timers t).
        snd e = Interval \<longrightarrow> fst e = interval t \<and> \<not> paused t \<and> \<not> stopped t) \<and>
     (\<forall>e \<in> set (active_timers t). fst e = interval t \<longrightarrow> snd e = Interval) \<and>
     (stopped t \<longrightarrow> time t = defaultTime t)"

section \<open>Storage: the wrapper of localStorage (storage.ts)\<close>

text \<open>
  \<^verbatim>\<open>localStorage\<close>: the keys with their texts, in the order in which
  \<^verbatim>\<open>Object.keys\<close> lists them. \<^verbatim>\<open>setItem\<close> replaces the text of a key that is
  there and appends a key that is not; \<^verbatim>\<open>getItem\<close> of a key that is not there is
  \<^verbatim>\<open>null\<close>, here \<open>None\<close>.
\<close>

type_synonym localStorage = "(string \<times> string) list"

definition getItem :: "localStorage \<Rightarrow> string \<Rightarrow> string option" where
  "getItem ls k = map_of ls k"

definition setItem :: "localStorage \<Rightarrow> string \<Rightarrow> string \<Rightarrow> localStorage" where
  "setItem ls k v = AList.update k v ls"


definition Object_keys :: "localStorage \<Rightarrow> string list" where
  "Object_keys ls = map fst ls"

text \<open>\<^verbatim>\<open>key.includes(p)\<close>: the text \<open>p\<close> occurs in \<open>key\<close> as a contiguous piece.\<close>

definition String_includes :: "string \<Rightarrow> string \<Rightarrow> bool" where
  "String_includes key p = sublist p key"

text \<open>The class has one field, the prefix (named \<open>prefix'\<close> here).\<close>

record Storage =
  prefix' :: string

text \<open>The constructor: an absent or empty prefix is the empty prefix.\<close>

definition Storage_new :: "string option \<Rightarrow> Storage" where
  "Storage_new p =
     (case p of
        None \<Rightarrow> \<lparr>prefix' = []\<rparr>
      | Some s \<Rightarrow> if s \<noteq> [] then \<lparr>prefix' = s\<rparr> else \<lparr>prefix' = []\<rparr>)"

definition prefixed :: "Storage \<Rightarrow> string \<Rightarrow> string" where
  "prefixed st key =
     (if String_includes key (prefix' st) then key
      else if length (prefix' st) \<noteq> 0 then prefix' st @ ''-'' @ key else key)"

text \<open>
  \<^verbatim>\<open>JSON.parse\<close> and \<^verbatim>\<open>JSON.stringify\<close> belong to the platform and are parameters
  of the methods that call them: \<open>parse\<close> returns a value or throws, \<open>stringify\<close>
  returns the text of a value. \<^verbatim>\<open>JSON.parse(null)\<close> parses the text \<^verbatim>\<open>null\<close>. The
  methods are given here as they are once their promise has settled.
\<close>

datatype error = SyntaxError

definition Storage_get ::
  "(string \<Rightarrow> error + 'v) \<Rightarrow> Storage \<Rightarrow> localStorage \<Rightarrow> string \<Rightarrow> error + 'v" where
  "Storage_get parse st ls key =
     parse (case getItem ls (prefixed st key) of None \<Rightarrow> ''null'' | Some text \<Rightarrow> text)"

definition Storage_set ::
  "('v \<Rightarrow> string) \<Rightarrow> Storage \<Rightarrow> localStorage \<Rightarrow> string \<Rightarrow> 'v \<Rightarrow> localStorage" where
  "Storage_set stringify st ls key v = setItem ls (prefixed st key) (stringify v)"


definition Storage_keys :: "Storage \<Rightarrow> localStorage \<Rightarrow> string list" where
  "Storage_keys st ls =
     (if length (prefix' st) \<noteq> 0
      then filter (\<lambda>key. String_includes key (prefix' st)) (Object_keys ls)
      else Object_keys ls)"

section \<open>Add: the form that creates a timer (Add.tsx)\<close>

text \<open>The record that is saved (types.ts): \<open>id\<close>, \<open>time\<close> and \<open>title\<close>.\<close>

record TimerData =
  id_data :: number
  time_data :: number
  title_data :: string

text \<open>The state of the form, and the calls it makes to the callbacks of its props.\<close>

record Add =
  error :: bool

text \<open>The message that \<open>render\<close> shows above the inputs.\<close>

definition error_message :: "Add \<Rightarrow> string" where
  "error_message a = (if error a then ''The timer needs a duration'' else [])"

datatype callback = OnBack | OnRefresh | OnMessage string

definition Add_storage :: Storage where
  "Add_storage = Storage_new (Some ''timer'')"

definition calcTime :: "number option \<Rightarrow> number option \<Rightarrow> number option \<Rightarrow> number" where
  "calcTime h m s =
     (let hours = (if truthy h then js_times (ToNumber h) (Num 3600) else Num 0);
          minutes = (if truthy m then js_times (ToNumber m) (Num 60) else Num 0);
          seconds = (if truthy s then ToNumber s else Num 0)
      in js_plus (js_plus hours minutes) seconds)"

text \<open>
  \<open>saveTimer\<close>, with what it reads as arguments: the value \<open>uuid\<close> that
  \<open>generateUUID\<close> returns (it is random), the text of the title input, and the three
  results of \<^verbatim>\<open>parseInt\<close> on the number inputs. It returns the state of the form, the
  storage, and the callbacks called once the write has settled.
\<close>

definition saveTimer ::
  "(TimerData \<Rightarrow> string) \<Rightarrow> number \<Rightarrow> string option \<Rightarrow> number \<Rightarrow> number \<Rightarrow> number \<Rightarrow>
     Add \<times> localStorage \<Rightarrow> Add \<times> localStorage \<times> callback list" where
  "saveTimer stringify uuid title hours minutes seconds = (\<lambda>(a, ls).
     let time = calcTime (Some hours) (Some minutes) (Some seconds) in
     if \<not> isNaN time \<and> js_gt0 time then
       let id = uuid;
           saveData = \<lparr>id_data = id, time_data = time,
             title_data = (case title of None \<Rightarrow> [] | Some s \<Rightarrow> if s \<noteq> [] then s else [])\<rparr>
       in (a, Storage_set stringify Add_storage ls (Number_toString id) saveData,
           [OnBack, OnRefresh, OnMessage ''Timer successfully added''])
     else (a\<lparr>error := True\<rparr>, ls, []))"

section \<open>App: loading the timers (App.tsx)\<close>

text \<open>
  The promise jobs of \<open>getLandingData\<close>. The engine runs them first in, first out.
  \<^item> \<open>KeysResume\<close>: \<open>keys()\<close> goes on after its \<^verbatim>\<open>await\<close>;
  \<^item> \<open>KeysThen keys\<close>: the callback given to \<open>keys().then\<close>;
  \<^item> \<open>GetResume key\<close>: \<open>get(key)\<close> goes on after its \<^verbatim>\<open>await\<close>;
  \<^item> \<open>PushThen data\<close>: the first callback after \<open>get(key)\<close>, which pushes;
  \<^item> \<open>SetStateThen\<close>: the second one, which calls \<^verbatim>\<open>setState\<close>.
\<close>

datatype 'v task = KeysResume | KeysThen "string list" | GetResume string | PushThen 'v
  | SetStateThen

text \<open>
  The component: the field \<open>landingData\<close>, the state \<open>state_landingData\<close>, the
  storage and the queue of jobs. \<open>published\<close> lists what every \<^verbatim>\<open>setState\<close> of
  \<open>getLandingData\<close> has handed to the Landing slide, oldest first.
\<close>

record 'v App =
  landingData :: "'v list"
  state_landingData :: "'v list"
  published :: "'v list list"
  localStorage :: localStorage
  microtasks :: "'v task list"

definition App_storage :: Storage where
  "App_storage = Storage_new (Some ''timer'')"

definition setState_landingData :: "'v App \<Rightarrow> 'v App" where
  "setState_landingData a =
     a\<lparr>state_landingData := landingData a, published := published a @ [landingData a]\<rparr>"

definition enqueue :: "'v task list \<Rightarrow> 'v App \<Rightarrow> 'v App" where
  "enqueue ts a = a\<lparr>microtasks := microtasks a @ ts\<rparr>"

text \<open>What \<open>getLandingData\<close> does before it returns: it empties the field and calls \<open>keys()\<close>.\<close>

definition getLandingData :: "'v App \<Rightarrow> 'v App" where
  "getLandingData a = enqueue [KeysResume] (a\<lparr>landingData := []\<rparr>)"

text \<open>
  One job. A \<open>get\<close> whose \<^verbatim>\<open>JSON.parse\<close> throws rejects its promise: neither of its
  two callbacks runs.
\<close>

fun exec :: "(string \<Rightarrow> error + 'v) \<Rightarrow> 'v task \<Rightarrow> 'v App \<Rightarrow> 'v App" where
  "exec parse KeysResume a = enqueue [KeysThen (Storage_keys App_storage (localStorage a))] a"
| "exec parse (KeysThen keys) a =
     (if keys \<noteq> [] then enqueue (map GetResume keys) a else setState_landingData a)"
| "exec parse (GetResume key) a =
     (case Storage_get parse App_storage (localStorage a) key of
        Inr data \<Rightarrow> enqueue [PushThen data] a
      | Inl SyntaxError \<Rightarrow> a)"
| "exec parse (PushThen data) a =
     enqueue [SetStateThen] (a\<lparr>landingData := landingData a @ [data]\<rparr>)"
| "exec parse SetStateThen a = setState_landingData a"

text \<open>The jobs still to come are bounded, given the number of keys in the storage.\<close>

fun weight :: "nat \<Rightarrow> 'v task \<Rightarrow> nat" where
  "weight n KeysResume = 3 * n + 3"
| "weight n (KeysThen keys) = 3 * length keys + 2"
| "weight n (GetResume key) = 3"
| "weight n (PushThen data) = 2"
| "weight n SetStateThen = 1"

definition pending :: "'v App \<Rightarrow> nat" where
  "pending a = sum_list (map (weight (length (localStorage a))) (microtasks a))"

lemma localStorage_exec: "localStorage (exec parse t a) = localStorage a"
  by (cases t)
    (simp_all add: enqueue_def setState_landingData_def split: sum.splits error.splits)

lemma length_Storage_keys: "length (Storage_keys st ls) \<le> length ls"
  by (simp add: Storage_keys_def Object_keys_def le_trans[OF length_filter_le])

lemma pending_exec:
  "pending (exec parse t (a\<lparr>microtasks := ts\<rparr>)) < pending (a\<lparr>microtasks := t # ts\<rparr>)"
proof (cases t)
  case KeysResume
  then show ?thesis
    using length_Storage_keys[of App_storage "localStorage a"]
    by (simp add: pending_def enqueue_def)
next
  case (KeysThen keys)
  have "sum_list (map (\<lambda>k. weight (length (localStorage a)) (GetResume k)) keys)
      = 3 * length keys"
    by (induction keys) simp_all
  with KeysThen show ?thesis
    by (simp add: pending_def enqueue_def setState_landingData_def comp_def)
next
  case (GetResume key)
  then show ?thesis
    by (simp add: pending_def enqueue_def split: sum.splits error.splits)
next
  case (PushThen d)
  then show ?thesis by (simp add: pending_def enqueue_def)
next
  case SetStateThen
  then show ?thesis by (simp add: pending_def setState_landingData_def)
qed

function drain :: "(string \<Rightarrow> error + 'v) \<Rightarrow> 'v App \<Rightarrow> 'v App" where
  "drain parse a =
     (case microtasks a of
        [] \<Rightarrow> a
      | t # ts \<Rightarrow> drain parse (exec parse t (a\<lparr>microtasks := ts\<rparr>)))"
  by pat_completeness auto
termination
proof (relation "measure (\<lambda>(parse, a). pending a)")
  show "wf (measure (\<lambda>(parse, a). pending a))" by simp
next
  fix parse :: "string \<Rightarrow> error + 'v" and a :: "'v App" and t ts
  assume m: "microtasks a = t # ts"
  have "a\<lparr>microtasks := t # ts\<rparr> = a" using m by simp
  with pending_exec[where parse=parse and t=t and a=a and ts=ts]
  show "((parse, exec parse t (a\<lparr>microtasks := ts\<rparr>)), (parse, a))
          \<in> measure (\<lambda>(parse, a). pending a)"
    by simp
qed

definition refresh :: "(string \<Rightarrow> error + 'v) \<Rightarrow> 'v App \<Rightarrow> 'v App" where
  "refresh parse a = drain parse (getLandingData a)"

section \<open>A codec for timer records\<close>

text \<open>
  One writer and one reader to put in the place of the two parameters in the examples.
  The writer gives the text that \<^verbatim>\<open>JSON.stringify\<close> gives for a timer record: the
  members in the order \<open>id\<close>, \<open>time\<close>, \<open>title\<close>, integers in decimal, \<^verbatim>\<open>NaN\<close> and
  the infinities as \<^verbatim>\<open>null\<close>, the double quote and the backslash of a title escaped
  by a backslash.
  The reader reads these texts for records with integer members, and the text
  \<^verbatim>\<open>null\<close>; on every other text it throws.
\<close>

definition dquote :: char where
  "dquote = CHR 0x22"

definition backslash :: char where
  "backslash = CHR 0x5C"

fun escape :: "string \<Rightarrow> string" where
  "escape [] = []"
| "escape (c # cs) =
     (if c = dquote \<or> c = backslash then backslash # c # escape cs else c # escape cs)"

fun JSON_number :: "number \<Rightarrow> string" where
  "JSON_number (Num i) = toString i"
| "JSON_number PInf = ''null''"
| "JSON_number NInf = ''null''"
| "JSON_number NaN = ''null''"

definition member :: "string \<Rightarrow> string" where
  "member name = dquote # name @ [dquote, CHR '':'']"

definition TimerData_stringify :: "TimerData \<Rightarrow> string" where
  "TimerData_stringify d =
     ''{'' @ member ''id'' @ JSON_number (id_data d)
     @ '','' @ member ''time'' @ JSON_number (time_data d)
     @ '','' @ member ''title'' @ [dquote] @ escape (title_data d) @ [dquote] @ ''}''"

fun expect :: "string \<Rightarrow> string \<Rightarrow> string option" where
  "expect [] text = Some text"
| "expect (p # ps) [] = None"
| "expect (p # ps) (c # cs) = (if p = c then expect ps cs else None)"

definition is_digit :: "char \<Rightarrow> bool" where
  "is_digit c = (48 \<le> (of_char c :: nat) \<and> (of_char c :: nat) \<le> 57)"

fun read_digits :: "nat \<Rightarrow> string \<Rightarrow> nat \<times> string" where
  "read_digits acc [] = (acc, [])"
| "read_digits acc (c # cs) =
     (if is_digit c then read_digits (10 * acc + (of_char c - 48)) cs else (acc, c # cs))"

definition read_number :: "string \<Rightarrow> (number \<times> string) option" where
  "read_number text =
     (case text of
        [] \<Rightarrow> None
      | c # cs \<Rightarrow>
          if c = CHR ''-'' then
            (case cs of
               [] \<Rightarrow> None
             | d # _ \<Rightarrow>
                 if is_digit d
                 then (case read_digits 0 cs of (n, rest) \<Rightarrow> Some (Num (- int n), rest))
                 else None)
          else if is_digit c
          then (case read_digits 0 text of (n, rest) \<Rightarrow> Some (Num (int n), rest))
          else None)"

fun unescape :: "string \<Rightarrow> (string \<times> string) option" where
  "unescape [] = None"
| "unescape (c # cs) =
     (if c = dquote then Some ([], cs)
      else if c = backslash then
        (case cs of
           [] \<Rightarrow> None
         | d # ds \<Rightarrow> (case unescape ds of None \<Rightarrow> None | Some (s, rest) \<Rightarrow> Some (d # s, rest)))
      else (case unescape cs of None \<Rightarrow> None | Some (s, rest) \<Rightarrow> Some (c # s, rest)))"

definition read_TimerData :: "string \<Rightarrow> TimerData option" where
  "read_TimerData text =
     (case expect (''{'' @ member ''id'') text of None \<Rightarrow> None | Some r0 \<Rightarrow>
      case read_number r0 of None \<Rightarrow> None | Some (i, r1) \<Rightarrow>
      case expect ('','' @ member ''time'') r1 of None \<Rightarrow> None | Some r2 \<Rightarrow>
      case read_number r2 of None \<Rightarrow> None | Some (t, r3) \<Rightarrow>
      case expect ('','' @ member ''title'' @ [dquote]) r3 of None \<Rightarrow> None | Some r4 \<Rightarrow>
      case unescape r4 of None \<Rightarrow> None | Some (s, r5) \<Rightarrow>
      if r5 = ''}'' then Some \<lparr>id_data = i, time_data = t, title_data = s\<rparr> else None)"

text \<open>The two parameters, on the values \<open>None\<close> (\<^verbatim>\<open>null\<close>) and \<open>Some d\<close> (a record).\<close>

definition JSON_stringify :: "TimerData option \<Rightarrow> string" where
  "JSON_stringify v = (case v of None \<Rightarrow> ''null'' | Some d \<Rightarrow> TimerData_stringify d)"

definition JSON_parse :: "string \<Rightarrow> error + TimerData option" where
  "JSON_parse text =
     (if text = ''null'' then Inr None
      else case read_TimerData text of None \<Rightarrow> Inl SyntaxError | Some d \<Rightarrow> Inr (Some d))"

section \<open>Notions for the statements and the examples\<close>

text \<open>
  For the statements. The integer of a component, one that is absent, \<^verbatim>\<open>NaN\<close> or
  infinite counting as 0. The components that are an integer not below 0, absent or
  \<^verbatim>\<open>NaN\<close> (\<open>natural\<close>); those that are not below 0, \<^verbatim>\<open>Infinity\<close> among them
  (\<open>not_negative\<close>); those that are an integer of magnitude at most \<open>2 ^ 53\<close>, absent
  or \<^verbatim>\<open>NaN\<close> (\<open>moderate\<close>). The numbers that are not below 0 (\<^verbatim>\<open>x >= 0\<close>).
\<close>

fun component :: "number option \<Rightarrow> int" where
  "component (Some (Num n)) = n"
| "component (Some PInf) = 0"
| "component (Some NInf) = 0"
| "component (Some NaN) = 0"
| "component None = 0"

fun natural :: "number option \<Rightarrow> bool" where
  "natural (Some (Num n)) = (0 \<le> n)"
| "natural (Some PInf) = False"
| "natural (Some NInf) = False"
| "natural (Some NaN) = True"
| "natural None = True"

fun not_negative :: "number option \<Rightarrow> bool" where
  "not_negative (Some (Num n)) = (0 \<le> n)"
| "not_negative (Some PInf) = True"
| "not_negative (Some NInf) = False"
| "not_negative (Some NaN) = True"
| "not_negative None = True"

fun moderate :: "number option \<Rightarrow> bool" where
  "moderate (Some (Num n)) = (\<bar>n\<bar> \<le> 2 ^ 53)"
| "moderate (Some PInf) = False"
| "moderate (Some NInf) = False"
| "moderate (Some NaN) = True"
| "moderate None = True"

fun js_ge0 :: "number \<Rightarrow> bool" where
  "js_ge0 (Num a) = (0 \<le> a)"
| "js_ge0 PInf = True"
| "js_ge0 NInf = False"
| "js_ge0 NaN = False"

text \<open>
  The components for which \<open>calcTime\<close> is shown not to return \<^verbatim>\<open>NaN\<close>: none is
  negative, or all are moderate. The numbers that are an integer of magnitude at most
  a bound.
\<close>

definition tame :: "number option \<Rightarrow> number option \<Rightarrow> number option \<Rightarrow> bool" where
  "tame h m s \<longleftrightarrow>
     not_negative h \<and> not_negative m \<and> not_negative s
     \<or> moderate h \<and> moderate m \<and> moderate s"

definition within :: "int \<Rightarrow> number \<Rightarrow> bool" where
  "within B x \<longleftrightarrow> (\<exists>k. x = Num k \<and> \<bar>k\<bar> \<le> B)"

text \<open>The data of the keys whose \<open>get\<close> resolves, in the order of the keys.\<close>

definition fetched :: "(string \<Rightarrow> error + 'v) \<Rightarrow> localStorage \<Rightarrow> string list \<Rightarrow> 'v list" where
  "fetched parse ls keys =
     concat (map (\<lambda>key. case Storage_get parse App_storage ls key of
                            Inr data \<Rightarrow> [data] | Inl e \<Rightarrow> []) keys)"

text \<open>Two records and their texts, and an App over a storage, for the examples.\<close>

definition tea :: TimerData where
  "tea = \<lparr>id_data = Num 41, time_data = Num 300, title_data = ''Tea''\<rparr>"

definition egg :: TimerData where
  "egg = \<lparr>id_data = Num 42, time_data = Num 420, title_data = ''Egg''\<rparr>"

definition App_over :: "localStorage \<Rightarrow> TimerData option App" where
  "App_over ls =
     \<lparr>landingData = [], state_landingData = [], published = [], localStorage = ls,
      microtasks = []\<rparr>"


section \<open>Properties\<close>

subsection \<open>Doubles\<close>

lemma halvings_small: "m < 2 ^ 53 \<Longrightarrow> halvings m = 0"
  by (subst halvings.simps) simp

lemma halvings_large: "\<not> m < 2 ^ 53 \<Longrightarrow> halvings m = Suc (halvings (m div 2))"
  by (subst halvings.simps) simp

lemma nearest_small: "m < 2 ^ 53 \<Longrightarrow> nearest m = m"
  by (simp add: nearest_def halvings_small)

lemma nearest_2_53: "nearest (2 ^ 53) = 2 ^ 53"
  by code_simp

lemma double_exact: "\<bar>n\<bar> \<le> 2 ^ 53 \<Longrightarrow> double n = Num n"
proof -
  assume a: "\<bar>n\<bar> \<le> 2 ^ 53"
  have "nearest \<bar>n\<bar> = \<bar>n\<bar>"
  proof (cases "\<bar>n\<bar> = 2 ^ 53")
    case True
    then show ?thesis using nearest_2_53 by simp
  next
    case False
    with a have "\<bar>n\<bar> < 2 ^ 53" by simp
    then show ?thesis by (rule nearest_small)
  qed
  moreover have "\<bar>n\<bar> < (2::int) ^ 1024" using a by (rule order_le_less_trans) simp
  ultimately show ?thesis by (simp add: double_def Let_def)
qed

lemma halvings_quotient: "0 < halvings m \<Longrightarrow> 1 \<le> m div 2 ^ halvings m"
proof (induction m rule: halvings.induct)
  case (1 m)
  show ?case
  proof (cases "m < 2 ^ 53")
    case True
    with 1(2) show ?thesis by (simp add: halvings_small)
  next
    case False
    have e: "m div 2 ^ halvings m = (m div 2) div 2 ^ halvings (m div 2)"
      by (simp add: halvings_large[OF False] zdiv_zmult2_eq)
    show ?thesis
    proof (cases "0 < halvings (m div 2)")
      case True
      from 1(1)[OF False True] e show ?thesis by simp
    next
      case False2: False
      from False have "1 \<le> m div 2" by simp
      with False2 e show ?thesis by simp
    qed
  qed
qed

lemma nearest_bounds: "0 \<le> m \<Longrightarrow> 0 \<le> nearest m \<and> nearest m \<le> 2 * m"
proof -
  assume m: "0 \<le> m"
  let ?e = "halvings m"
  let ?q = "m div 2 ^ ?e"
  have q0: "0 \<le> ?q" using m by (simp add: pos_imp_zdiv_nonneg_iff)
  have "?q * 2 ^ ?e + m mod 2 ^ ?e = m" by (rule div_mult_mod_eq)
  moreover have "0 \<le> m mod 2 ^ ?e" by simp
  ultimately have qm: "?q * 2 ^ ?e \<le> m" by linarith
  have up: "nearest m \<le> (?q + 1) * 2 ^ ?e" "0 \<le> nearest m"
    using q0 by (simp_all add: nearest_def Let_def mult_right_mono)
  show ?thesis
  proof (cases "0 < ?e")
    case True
    have a: "(?q + 1) * 2 ^ ?e \<le> (2 * ?q) * 2 ^ ?e"
      using halvings_quotient[OF True] by (intro mult_right_mono) simp_all
    have b: "(2 * ?q) * 2 ^ ?e = 2 * (?q * 2 ^ ?e)" by simp
    from up a b qm show ?thesis by linarith
  next
    case False
    then have "nearest m = m" by (simp add: nearest_def Let_def)
    with m show ?thesis by simp
  qed
qed

lemma double_ge0: "0 \<le> n \<Longrightarrow> js_ge0 (double n)"
  using nearest_bounds[of n] by (simp add: double_def Let_def)

lemma double_finite:
  assumes "\<bar>n\<bar> \<le> B" and "2 * B < 2 ^ 1024"
  shows "\<exists>k. double n = Num k \<and> \<bar>k\<bar> \<le> 2 * B"
proof -
  define v where "v = nearest \<bar>n\<bar>"
  from nearest_bounds[of "\<bar>n\<bar>"] have b: "0 \<le> v" "v \<le> 2 * \<bar>n\<bar>"
    by (simp_all add: v_def)
  with assms have v: "v \<le> 2 * B" "\<not> 2 ^ 1024 \<le> v" by simp_all
  have "double n = Num (if n < 0 then - v else v)"
    unfolding double_def Let_def v_def[symmetric] using v(2) by simp
  moreover have "\<bar>if n < 0 then - v else v\<bar> \<le> 2 * B" using b(1) v(1) by simp
  ultimately show ?thesis by blast
qed

subsection \<open>The tick\<close>

lemma time_countDown:
  "time (countDown t) =
     (if js_lt0 (js_plus (time t) (Num (- 1))) then Num 0 else js_plus (time t) (Num (- 1)))"
  by (simp add: countDown_def updateTitle_def Let_def)

lemma time_setTimer: "time (setTimer k t) = time t"
  by (simp add: setTimer_def)

lemma time_interval_callback:
  "time (interval_callback t) =
     (if js_lt0 (js_plus (time t) (Num (- 1))) then Num 0 else js_plus (time t) (Num (- 1)))"
  by (simp add: interval_callback_def Let_def time_countDown time_setTimer)

lemma tick_exact:
  assumes "time t = Num r" and "0 \<le> r" and "r \<le> 2 ^ 53"
  shows "time (interval_callback t) = Num (max (r - 1) 0)"
proof -
  have "\<bar>r - 1\<bar> \<le> 2 ^ 53" using assms(2,3) by simp
  then have "js_plus (Num r) (Num (- 1)) = Num (r - 1)" by (simp add: double_exact)
  then show ?thesis using assms(1) by (simp add: time_interval_callback max_def)
qed

lemma tick_not_negative: "\<not> js_lt0 (time (interval_callback t))"
  by (simp add: time_interval_callback)

lemma ticks_not_negative:
  "\<not> js_lt0 (time u) \<Longrightarrow> \<not> js_lt0 (time ((interval_callback ^^ n) u))"
  by (cases n) (simp_all add: tick_not_negative)

lemma tick_at_2_54:
  "js_plus (Num 18014398509481984) (Num (- 1)) = Num 18014398509481984"
  by code_simp

subsection \<open>Stop, pause and the table of timers\<close>

lemma inv_mount: "timer_inv (mount ptime ptitle title0)"
  by (simp add: timer_inv_def mount_def constructor_def componentDidMount_def)

lemma stopTimer_fields:
  "props_time (stopTimer t) = props_time t"
  "defaultTime (stopTimer t) = defaultTime t"
  "domTitle (stopTimer t) = domTitle t"
  "interval (stopTimer t) = interval t"
  "next_handle (stopTimer t) = next_handle t"
  "paused (stopTimer t) = paused t"
  "stopped (stopTimer t) = True"
  "time (stopTimer t) = defaultTime t"
  "document_title (stopTimer t) = domTitle t"
  "active_timers (stopTimer t) = filter (\<lambda>e. fst e \<noteq> interval t) (active_timers t)"
  by (simp_all add: stopTimer_def clearInterval_def Let_def)

lemma pauseTimer_fields:
  "props_time (pauseTimer t) = props_time t"
  "defaultTime (pauseTimer t) = defaultTime t"
  "domTitle (pauseTimer t) = domTitle t"
  "interval (pauseTimer t) = interval t"
  "next_handle (pauseTimer t) = next_handle t"
  "paused (pauseTimer t) = True"
  "stopped (pauseTimer t) = stopped t"
  "time (pauseTimer t) = time t"
  "document_title (pauseTimer t) = document_title t"
  "active_timers (pauseTimer t) = filter (\<lambda>e. fst e \<noteq> interval t) (active_timers t)"
  by (simp_all add: pauseTimer_def clearInterval_def Let_def)

lemma clearInterval_fields:
  "props_time (clearInterval h t) = props_time t"
  "defaultTime (clearInterval h t) = defaultTime t"
  "domTitle (clearInterval h t) = domTitle t"
  "interval (clearInterval h t) = interval t"
  "next_handle (clearInterval h t) = next_handle t"
  "paused (clearInterval h t) = paused t"
  "stopped (clearInterval h t) = stopped t"
  "time (clearInterval h t) = time t"
  "document_title (clearInterval h t) = document_title t"
  "active_timers (clearInterval h t) = filter (\<lambda>e. fst e \<noteq> h) (active_timers t)"
  by (simp_all add: clearInterval_def)

lemma startTimer_fields:
  "props_time (startTimer t) = props_time t"
  "defaultTime (startTimer t) = defaultTime t"
  "domTitle (startTimer t) = domTitle t"
  "interval (startTimer t) = next_handle t"
  "next_handle (startTimer t) = Suc (next_handle t)"
  "paused (startTimer t) = False"
  "stopped (startTimer t) = False"
  "time (startTimer t) = time t"
  "document_title (startTimer t) = document_title t"
  "active_timers (startTimer t) = active_timers t @ [(next_handle t, Interval)]"
  by (simp_all add: startTimer_def setTimer_def Let_def)

lemma setTimer_fields:
  "props_time (setTimer k t) = props_time t"
  "defaultTime (setTimer k t) = defaultTime t"
  "domTitle (setTimer k t) = domTitle t"
  "interval (setTimer k t) = interval t"
  "next_handle (setTimer k t) = Suc (next_handle t)"
  "paused (setTimer k t) = paused t"
  "stopped (setTimer k t) = stopped t"
  "document_title (setTimer k t) = document_title t"
  "active_timers (setTimer k t) = active_timers t @ [(next_handle t, k)]"
  by (simp_all add: setTimer_def)

lemma countDown_fields:
  "props_time (countDown t) = props_time t"
  "defaultTime (countDown t) = defaultTime t"
  "domTitle (countDown t) = domTitle t"
  "interval (countDown t) = interval t"
  "next_handle (countDown t) = next_handle t"
  "paused (countDown t) = paused t"
  "stopped (countDown t) = stopped t"
  "active_timers (countDown t) = active_timers t"
  by (simp_all add: countDown_def updateTitle_def Let_def)

lemma inv_stopTimer: "timer_inv t \<Longrightarrow> timer_inv (stopTimer t)"
  unfolding timer_inv_def stopTimer_fields
  by (auto simp: distinct_map_filter)

lemma inv_pauseTimer: "timer_inv t \<Longrightarrow> timer_inv (pauseTimer t)"
  unfolding timer_inv_def pauseTimer_fields
  by (auto simp: distinct_map_filter)

lemma inv_clear: "timer_inv t \<Longrightarrow> timer_inv (clearInterval h t)"
  unfolding timer_inv_def clearInterval_fields
  by (auto simp: distinct_map_filter)

lemma inv_startTimer: "timer_inv t \<Longrightarrow> paused t \<or> stopped t \<Longrightarrow> timer_inv (startTimer t)"
  unfolding timer_inv_def startTimer_fields
  by fastforce

lemma inv_handleClick: "timer_inv t \<Longrightarrow> timer_inv (handleClick t)"
  by (simp add: handleClick_def inv_startTimer inv_pauseTimer)

lemma inv_countDown: "timer_inv t \<Longrightarrow> \<not> stopped t \<Longrightarrow> timer_inv (countDown t)"
  unfolding timer_inv_def countDown_fields
  by simp

lemma inv_setTimeout: "timer_inv t \<Longrightarrow> timer_inv (setTimer Timeout t)"
  unfolding timer_inv_def setTimer_fields time_setTimer
  by fastforce

lemma inv_interval_callback:
  "timer_inv t \<Longrightarrow> \<not> stopped t \<Longrightarrow> timer_inv (interval_callback t)"
  by (simp add: interval_callback_def Let_def inv_countDown inv_setTimeout)

lemma inv_IntervalD:
  "timer_inv t \<Longrightarrow> e \<in> set (active_timers t) \<Longrightarrow> snd e = Interval \<Longrightarrow>
     fst e = interval t \<and> \<not> paused t \<and> \<not> stopped t"
  unfolding timer_inv_def by blast

lemma inv_ownD:
  "timer_inv t \<Longrightarrow> e \<in> set (active_timers t) \<Longrightarrow> fst e = interval t \<Longrightarrow> snd e = Interval"
  unfolding timer_inv_def by blast

lemma inv_stoppedD: "timer_inv t \<Longrightarrow> stopped t \<Longrightarrow> time t = defaultTime t"
  unfolding timer_inv_def by blast

lemma inv_defaultTimeD: "timer_inv t \<Longrightarrow> defaultTime t = props_time t"
  unfolding timer_inv_def by blast

lemma inv_title: "timer_inv t \<Longrightarrow> timer_inv (t\<lparr>document_title := s\<rparr>)"
  unfolding timer_inv_def by simp

lemma inv_step:
  assumes i: "timer_inv t"
  shows "timer_inv (step e t)"
proof (cases e)
  case Click
  with i show ?thesis by (simp add: inv_handleClick)
next
  case Stop
  with i show ?thesis by (simp add: inv_stopTimer)
next
  case (Fire h)
  show ?thesis
  proof (cases "map_of (active_timers t) h")
    case None
    with Fire i show ?thesis by simp
  next
    case (Some k)
    then have m: "(h, k) \<in> set (active_timers t)" by (rule map_of_SomeD)
    show ?thesis
    proof (cases k)
      case Interval
      with inv_IntervalD[OF i m] have "\<not> stopped t" by simp
      with Fire Some Interval i show ?thesis by (simp add: inv_interval_callback)
    next
      case Timeout
      with Fire Some i show ?thesis by (simp add: timeout_callback_def inv_stopTimer inv_clear)
    qed
  qed
next
  case (Title s)
  with i show ?thesis by (simp add: inv_title)
qed

lemma inv_run: "timer_inv t \<Longrightarrow> timer_inv (run es t)"
  by (induction es arbitrary: t) (simp_all add: inv_step)

lemma frame_interval_callback:
  "props_time (interval_callback t) = props_time t \<and> domTitle (interval_callback t) = domTitle t"
  by (simp add: interval_callback_def Let_def countDown_fields setTimer_fields)

lemma frame_handleClick:
  "props_time (handleClick t) = props_time t \<and> domTitle (handleClick t) = domTitle t"
  by (simp add: handleClick_def startTimer_fields pauseTimer_fields)

lemma frame_step: "props_time (step e t) = props_time t \<and> domTitle (step e t) = domTitle t"
  by (cases e)
    (simp_all add: frame_handleClick frame_interval_callback stopTimer_fields
      clearInterval_fields timeout_callback_def split: option.splits timer_kind.splits)

lemma frame_run: "props_time (run es t) = props_time t \<and> domTitle (run es t) = domTitle t"
  by (induction es arbitrary: t) (simp_all add: frame_step)

lemma frame_mount:
  "props_time (mount ptime ptitle title0) = ptime \<and> domTitle (mount ptime ptitle title0) = title0"
  by (simp add: mount_def constructor_def componentDidMount_def)

lemma clear_own_interval:
  assumes "timer_inv t"
  shows "filter (\<lambda>e. fst e \<noteq> interval t) (active_timers t)
    = filter (\<lambda>e. snd e = Timeout) (active_timers t)"
proof (rule filter_cong[OF refl])
  fix e assume m: "e \<in> set (active_timers t)"
  show "(fst e \<noteq> interval t) = (snd e = Timeout)"
  proof (cases "snd e")
    case Interval
    with inv_IntervalD[OF assms m] show ?thesis by simp
  next
    case Timeout
    with inv_ownD[OF assms m] show ?thesis by auto
  qed
qed

text \<open>A run of a timer of one second, state by state.\<close>

lemma scenario_start:
  "step Click (mount (Num 1) None ''Countdown'') =
     \<lparr>props_time = Num 1, props_title = None, paused = False, stopped = False,
      time = Num 1, defaultTime = Num 1, domTitle = ''Countdown'', elapsedTime = Num 0,
      interval = 1, document_title = ''Countdown'',
      active_timers = [(1, Interval)], next_handle = 2\<rparr>"
  by code_simp

lemma scenario_tick:
  "step (Fire 1)
     \<lparr>props_time = Num 1, props_title = None, paused = False, stopped = False,
      time = Num 1, defaultTime = Num 1, domTitle = ''Countdown'', elapsedTime = Num 0,
      interval = 1, document_title = ''Countdown'',
      active_timers = [(1, Interval)], next_handle = 2\<rparr> =
     \<lparr>props_time = Num 1, props_title = None, paused = False, stopped = False,
      time = Num 0, defaultTime = Num 1, domTitle = ''Countdown'', elapsedTime = Num 0,
      interval = 1, document_title = ''Timer '' @ en_dash @ '' 00:00:00'',
      active_timers = [(1, Interval), (2, Timeout)], next_handle = 3\<rparr>"
  by code_simp

lemma scenario_stop:
  "step Stop
     \<lparr>props_time = Num 1, props_title = None, paused = False, stopped = False,
      time = Num 0, defaultTime = Num 1, domTitle = ''Countdown'', elapsedTime = Num 0,
      interval = 1, document_title = ''Timer '' @ en_dash @ '' 00:00:00'',
      active_timers = [(1, Interval), (2, Timeout)], next_handle = 3\<rparr> =
     \<lparr>props_time = Num 1, props_title = None, paused = False, stopped = True,
      time = Num 1, defaultTime = Num 1, domTitle = ''Countdown'', elapsedTime = Num 0,
      interval = 1, document_title = ''Countdown'',
      active_timers = [(2, Timeout)], next_handle = 3\<rparr>"
  by code_simp

lemma scenario_restart:
  "step Click
     \<lparr>props_time = Num 1, props_title = None, paused = False, stopped = True,
      time = Num 1, defaultTime = Num 1, domTitle = ''Countdown'', elapsedTime = Num 0,
      interval = 1, document_title = ''Countdown'',
      active_timers = [(2, Timeout)], next_handle = 3\<rparr> =
     \<lparr>props_time = Num 1, props_title = None, paused = False, stopped = False,
      time = Num 1, defaultTime = Num 1, domTitle = ''Countdown'', elapsedTime = Num 0,
      interval = 3, document_title = ''Countdown'',
      active_timers = [(2, Timeout), (3, Interval)], next_handle = 4\<rparr>"
  by code_simp

lemma scenario_stale:
  "step (Fire 2)
     \<lparr>props_time = Num 1, props_title = None, paused = False, stopped = False,
      time = Num 1, defaultTime = Num 1, domTitle = ''Countdown'', elapsedTime = Num 0,
      interval = 3, document_title = ''Countdown'',
      active_timers = [(2, Timeout), (3, Interval)], next_handle = 4\<rparr> =
     \<lparr>props_time = Num 1, props_title = None, paused = False, stopped = True,
      time = Num 1, defaultTime = Num 1, domTitle = ''Countdown'', elapsedTime = Num 0,
      interval = 3, document_title = ''Countdown'',
      active_timers = [], next_handle = 4\<rparr>"
  by code_simp

lemmas scenario = scenario_start scenario_tick scenario_stop scenario_restart scenario_stale

text \<open>
  A timer that is constructed while the title shows the countdown of another timer,
  which then stops and puts the title of the page back; state by state.
\<close>

lemma late_title:
  "step (Title ''Countdown'') (mount (Num 5) (Some ''Egg'') (''Tea '' @ en_dash @ '' 00:04:59'')) =
     \<lparr>props_time = Num 5, props_title = Some ''Egg'', paused = True, stopped = False,
      time = Num 5, defaultTime = Num 5, domTitle = ''Tea '' @ en_dash @ '' 00:04:59'', elapsedTime = Num 0,
      interval = 0, document_title = ''Countdown'',
      active_timers = [], next_handle = 1\<rparr>"
  by code_simp

lemma late_start:
  "step Click
     \<lparr>props_time = Num 5, props_title = Some ''Egg'', paused = True, stopped = False,
      time = Num 5, defaultTime = Num 5, domTitle = ''Tea '' @ en_dash @ '' 00:04:59'', elapsedTime = Num 0,
      interval = 0, document_title = ''Countdown'',
      active_timers = [], next_handle = 1\<rparr> =
     \<lparr>props_time = Num 5, props_title = Some ''Egg'', paused = False, stopped = False,
      time = Num 5, defaultTime = Num 5, domTitle = ''Tea '' @ en_dash @ '' 00:04:59'', elapsedTime = Num 0,
      interval = 1, document_title = ''Countdown'',
      active_timers = [(1, Interval)], next_handle = 2\<rparr>"
  by code_simp

lemma late_tick:
  "step (Fire 1)
     \<lparr>props_time = Num 5, props_title = Some ''Egg'', paused = False, stopped = False,
      time = Num 5, defaultTime = Num 5, domTitle = ''Tea '' @ en_dash @ '' 00:04:59'', elapsedTime = Num 0,
      interval = 1, document_title = ''Countdown'',
      active_timers = [(1, Interval)], next_handle = 2\<rparr> =
     \<lparr>props_time = Num 5, props_title = Some ''Egg'', paused = False, stopped = False,
      time = Num 4, defaultTime = Num 5, domTitle = ''Tea '' @ en_dash @ '' 00:04:59'', elapsedTime = Num 4,
      interval = 1, document_title = ''Egg '' @ en_dash @ '' 00:00:04'',
      active_timers = [(1, Interval)], next_handle = 2\<rparr>"
  by code_simp

lemma late_stop:
  "step Stop
     \<lparr>props_time = Num 5, props_title = Some ''Egg'', paused = False, stopped = False,
      time = Num 4, defaultTime = Num 5, domTitle = ''Tea '' @ en_dash @ '' 00:04:59'', elapsedTime = Num 4,
      interval = 1, document_title = ''Egg '' @ en_dash @ '' 00:00:04'',
      active_timers = [(1, Interval)], next_handle = 2\<rparr> =
     \<lparr>props_time = Num 5, props_title = Some ''Egg'', paused = False, stopped = True,
      time = Num 5, defaultTime = Num 5, domTitle = ''Tea '' @ en_dash @ '' 00:04:59'', elapsedTime = Num 4,
      interval = 1, document_title = ''Tea '' @ en_dash @ '' 00:04:59'',
      active_timers = [], next_handle = 2\<rparr>"
  by code_simp

lemmas late = late_title late_start late_tick late_stop

text \<open>A timer that is stopped, after which another timer writes the title.\<close>

lemma idle_stop:
  "step Stop (mount (Num 5) (Some ''Egg'') ''Countdown'') =
     \<lparr>props_time = Num 5, props_title = Some ''Egg'', paused = True, stopped = True,
      time = Num 5, defaultTime = Num 5, domTitle = ''Countdown'', elapsedTime = Num 0,
      interval = 0, document_title = ''Countdown'',
      active_timers = [], next_handle = 1\<rparr>"
  by code_simp

lemma idle_title:
  "step (Title (''Tea '' @ en_dash @ '' 00:04:59''))
     \<lparr>props_time = Num 5, props_title = Some ''Egg'', paused = True, stopped = True,
      time = Num 5, defaultTime = Num 5, domTitle = ''Countdown'', elapsedTime = Num 0,
      interval = 0, document_title = ''Countdown'',
      active_timers = [], next_handle = 1\<rparr> =
     \<lparr>props_time = Num 5, props_title = Some ''Egg'', paused = True, stopped = True,
      time = Num 5, defaultTime = Num 5, domTitle = ''Countdown'', elapsedTime = Num 0,
      interval = 0, document_title = ''Tea '' @ en_dash @ '' 00:04:59'',
      active_timers = [], next_handle = 1\<rparr>"
  by code_simp

lemma idle_stop_again:
  "stopTimer
     \<lparr>props_time = Num 5, props_title = Some ''Egg'', paused = True, stopped = True,
      time = Num 5, defaultTime = Num 5, domTitle = ''Countdown'', elapsedTime = Num 0,
      interval = 0, document_title = ''Tea '' @ en_dash @ '' 00:04:59'',
      active_timers = [], next_handle = 1\<rparr> =
     \<lparr>props_time = Num 5, props_title = Some ''Egg'', paused = True, stopped = True,
      time = Num 5, defaultTime = Num 5, domTitle = ''Countdown'', elapsedTime = Num 0,
      interval = 0, document_title = ''Countdown'',
      active_timers = [], next_handle = 1\<rparr>"
  by code_simp

lemmas idle = idle_stop idle_title

text \<open>
  C3, as the code has it: a tick of a timer whose remaining time \<open>r\<close> is an integer
  from 0 to \<open>2 ^ 53\<close> sets it to \<open>max (r - 1) 0\<close>; and whatever the remaining time of a
  timer, if it is not negative it is not negative after any number of ticks.
\<close>

theorem tick_floor:
  assumes "time t = Num r" and "0 \<le> r" and "r \<le> 2 ^ 53"
    and "\<not> js_lt0 (time u)"
  shows "time (interval_callback t) = Num (max (r - 1) 0)
    \<and> \<not> js_lt0 (time ((interval_callback ^^ n) u))"
  using assms by (simp add: tick_exact ticks_not_negative)

theorem tick_floor_witness:
  "time (mount (Num 3) None ''Countdown'') = Num 3
   \<and> time (interval_callback (mount (Num 3) None ''Countdown'')) = Num 2
   \<and> time ((interval_callback ^^ 3) (mount (Num 3) None ''Countdown'')) = Num 0
   \<and> time ((interval_callback ^^ 4) (mount (Num 3) None ''Countdown'')) = Num 0
   \<and> \<not> js_lt0 (time ((interval_callback ^^ 4) (mount (Num 3) None ''Countdown'')))"
proof -
  let ?t = "mount (Num 3) None ''Countdown''"
  have a: "time ?t = Num 3"
    by (simp add: mount_def constructor_def componentDidMount_def)
  have n: "\<not> js_lt0 (time ?t)" by (simp add: a)
  have 1: "time (interval_callback ?t) = Num 2"
    using tick_floor[OF a _ _ n, THEN conjunct1] by simp
  have 2: "time (interval_callback (interval_callback ?t)) = Num 1"
    using tick_floor[OF 1 _ _ n, THEN conjunct1] by simp
  have 3: "time ((interval_callback ^^ 3) ?t) = Num 0"
    using tick_floor[OF 2 _ _ n, THEN conjunct1] by (simp add: eval_nat_numeral)
  have 4: "time ((interval_callback ^^ 4) ?t) = Num 0"
    using tick_floor[OF 3 _ _ n, THEN conjunct1] by (simp add: eval_nat_numeral)
  from a 1 3 4 show ?thesis by simp
qed

text \<open>
  C3 as stated fails beyond \<open>2 ^ 53\<close>: at \<open>r = 2 ^ 54 = 18014398509481984\<close> the double
  nearest to \<open>r - 1\<close> is \<open>r\<close>, and the tick leaves the remaining time as it is.
\<close>

theorem tick_lost_at_2_54:
  "time (mount (Num 18014398509481984) None ''Countdown'') = Num 18014398509481984
   \<and> time (interval_callback (mount (Num 18014398509481984) None ''Countdown''))
       = Num 18014398509481984
   \<and> time (interval_callback (mount (Num 18014398509481984) None ''Countdown''))
       \<noteq> Num (max (18014398509481984 - 1) 0)"
proof -
  have a: "time (mount (Num 18014398509481984) None ''Countdown'') = Num 18014398509481984"
    by (simp add: mount_def constructor_def componentDidMount_def)
  have "time (interval_callback (mount (Num 18014398509481984) None ''Countdown''))
       = Num 18014398509481984"
    unfolding time_interval_callback a tick_at_2_54 by simp
  with a show ?thesis by simp
qed

lemma stopTimer_after_run:
  assumes "t = run es (mount ptime ptitle title0)"
  shows "time (stopTimer t) = ptime
    \<and> document_title (stopTimer t) = title0
    \<and> Interval \<notin> snd ` set (active_timers (stopTimer t))
    \<and> phase_of (stopTimer t) = Stopped"
proof -
  have i: "timer_inv t" using assms(1) by (simp add: inv_run inv_mount)
  have f: "props_time t = ptime" "domTitle t = title0"
    using assms(1) by (simp_all add: frame_run frame_mount)
  have d: "defaultTime t = ptime" using inv_defaultTimeD[OF i] f by simp
  have a: "active_timers (stopTimer t) = filter (\<lambda>e. snd e = Timeout) (active_timers t)"
    using clear_own_interval[OF i] by (simp add: stopTimer_fields)
  have n: "Interval \<notin> snd ` set (active_timers (stopTimer t))"
    unfolding a by auto
  show ?thesis using d f n
    by (simp add: stopTimer_fields phase_of_def)
qed

text \<open>
  C6 fails on the code where the title is shared. A timer is constructed while the
  title shows the countdown of another timer; that timer stops and the title is the
  title of the page again. The timer is started: the title it finds is the title of the
  page. It ticks, and is stopped: the tick is cancelled and the remaining time is the
  time of the record again, but the title is the old countdown of the other timer, not
  the title the timer found before its first tick.
\<close>

theorem stop_restores_stale_title:
  "phase_of (run [Title ''Countdown'', Click]
       (mount (Num 5) (Some ''Egg'') (''Tea '' @ en_dash @ '' 00:04:59''))) = Running
   \<and> document_title (run [Title ''Countdown'', Click]
       (mount (Num 5) (Some ''Egg'') (''Tea '' @ en_dash @ '' 00:04:59''))) = ''Countdown''
   \<and> document_title (run [Title ''Countdown'', Click, Fire 1]
       (mount (Num 5) (Some ''Egg'') (''Tea '' @ en_dash @ '' 00:04:59'')))
       = ''Egg '' @ en_dash @ '' 00:00:04''
   \<and> document_title (run [Title ''Countdown'', Click, Fire 1, Stop]
       (mount (Num 5) (Some ''Egg'') (''Tea '' @ en_dash @ '' 00:04:59'')))
       = ''Tea '' @ en_dash @ '' 00:04:59''
   \<and> document_title (run [Title ''Countdown'', Click, Fire 1, Stop]
       (mount (Num 5) (Some ''Egg'') (''Tea '' @ en_dash @ '' 00:04:59''))) \<noteq> ''Countdown''
   \<and> time (run [Title ''Countdown'', Click, Fire 1, Stop]
       (mount (Num 5) (Some ''Egg'') (''Tea '' @ en_dash @ '' 00:04:59''))) = Num 5
   \<and> active_timers (run [Title ''Countdown'', Click, Fire 1, Stop]
       (mount (Num 5) (Some ''Egg'') (''Tea '' @ en_dash @ '' 00:04:59''))) = []"
  by (simp only: run.simps late) (simp add: phase_of_def)

lemma stopTimer_twice: "stopTimer (stopTimer u) = stopTimer u"
  by (simp add: stopTimer_def clearInterval_def Let_def)

text \<open>
  C7, as the code has it: stopping a mounted timer that is already stopped leaves the
  remaining time at the time of the record and changes nothing of the timer and of the
  table of timers; it writes the title saved by the constructor to the document title
  once more. Two stops in a row are one.
\<close>

theorem stop_idempotent:
  assumes "t = run es (mount ptime ptitle title0)"
    and "phase_of t = Stopped"
  shows "stopTimer t = t\<lparr>document_title := title0\<rparr> \<and> time (stopTimer t) = ptime
    \<and> stopTimer (stopTimer u) = stopTimer u"
proof -
  have i: "timer_inv t" using assms(1) by (simp add: inv_run inv_mount)
  have f: "props_time t = ptime" "domTitle t = title0"
    using assms(1) by (simp_all add: frame_run frame_mount)
  have s: "stopped t" using assms(2) by (simp add: phase_of_def split: if_splits)
  have d: "defaultTime t = ptime" "time t = defaultTime t"
    using inv_defaultTimeD[OF i] inv_stoppedD[OF i s] f by simp_all
  have "\<forall>e \<in> set (active_timers t). snd e = Timeout"
    using inv_IntervalD[OF i] s by (metis timer_kind.exhaust)
  then have n: "filter (\<lambda>e. snd e = Timeout) (active_timers t) = active_timers t"
    by (simp add: filter_id_conv)
  have a: "filter (\<lambda>e. fst e \<noteq> interval t) (active_timers t) = active_timers t"
    using clear_own_interval[OF i] n by simp
  have "stopTimer t = t\<lparr>document_title := title0\<rparr>"
    using s d a f by (simp add: stopTimer_def clearInterval_def Let_def)
  then show ?thesis using d by (simp add: stopTimer_twice)
qed

theorem stop_idempotent_witness:
  "phase_of (run [Click, Fire 1, Stop] (mount (Num 1) None ''Countdown'')) = Stopped
   \<and> stopTimer (run [Click, Fire 1, Stop] (mount (Num 1) None ''Countdown''))
       = (run [Click, Fire 1, Stop] (mount (Num 1) None ''Countdown''))
           \<lparr>document_title := ''Countdown''\<rparr>
   \<and> time (stopTimer (run [Click, Fire 1, Stop] (mount (Num 1) None ''Countdown''))) = Num 1"
proof -
  have p: "phase_of (run [Click, Fire 1, Stop] (mount (Num 1) None ''Countdown'')) = Stopped"
    by (simp only: run.simps scenario) (simp add: phase_of_def)
  from stop_idempotent[OF refl p] p show ?thesis by blast
qed

text \<open>
  C7 as stated fails where the title is shared. A timer is stopped; another timer
  writes its countdown to the title; the stopped timer is stopped again: the title
  changes back to the title that the stopped timer saved.
\<close>

theorem stop_again_rewrites_title:
  "phase_of (run [Stop, Title (''Tea '' @ en_dash @ '' 00:04:59'')]
       (mount (Num 5) (Some ''Egg'') ''Countdown'')) = Stopped
   \<and> document_title (run [Stop, Title (''Tea '' @ en_dash @ '' 00:04:59'')]
       (mount (Num 5) (Some ''Egg'') ''Countdown'')) = ''Tea '' @ en_dash @ '' 00:04:59''
   \<and> document_title (stopTimer (run [Stop, Title (''Tea '' @ en_dash @ '' 00:04:59'')]
       (mount (Num 5) (Some ''Egg'') ''Countdown''))) = ''Countdown''
   \<and> stopTimer (run [Stop, Title (''Tea '' @ en_dash @ '' 00:04:59'')]
       (mount (Num 5) (Some ''Egg'') ''Countdown''))
     \<noteq> run [Stop, Title (''Tea '' @ en_dash @ '' 00:04:59'')]
       (mount (Num 5) (Some ''Egg'') ''Countdown'')"
  by (simp only: run.simps idle idle_stop_again) (simp add: phase_of_def en_dash_def)

text \<open>
  C2, as the code has it: pausing or stopping a running timer removes its interval from
  the table, so no tick is pending afterwards; every pending timeout of the grace delay
  stays in the table.
\<close>

theorem pause_stop_cancel_tick:
  assumes "t = run es (mount ptime ptitle title0)"
    and "phase_of t = Running"
  shows "active_timers (pauseTimer t) = filter (\<lambda>e. snd e = Timeout) (active_timers t)
    \<and> active_timers (stopTimer t) = filter (\<lambda>e. snd e = Timeout) (active_timers t)"
proof -
  have i: "timer_inv t" using assms(1) by (simp add: inv_run inv_mount)
  show ?thesis using clear_own_interval[OF i]
    by (simp add: stopTimer_fields pauseTimer_fields)
qed

theorem pause_stop_cancel_tick_witness:
  "phase_of (run [Click, Fire 1] (mount (Num 1) None ''Countdown'')) = Running
   \<and> active_timers (run [Click, Fire 1] (mount (Num 1) None ''Countdown''))
       = [(1, Interval), (2, Timeout)]
   \<and> active_timers (pauseTimer (run [Click, Fire 1] (mount (Num 1) None ''Countdown'')))
       = [(2, Timeout)]
   \<and> active_timers (stopTimer (run [Click, Fire 1] (mount (Num 1) None ''Countdown'')))
       = [(2, Timeout)]"
proof -
  have p: "phase_of (run [Click, Fire 1] (mount (Num 1) None ''Countdown'')) = Running"
    by (simp only: run.simps scenario) (simp add: phase_of_def)
  have a: "active_timers (run [Click, Fire 1] (mount (Num 1) None ''Countdown''))
       = [(1, Interval), (2, Timeout)]"
    by (simp only: run.simps scenario) simp
  have s: "active_timers (pauseTimer (run [Click, Fire 1] (mount (Num 1) None ''Countdown'')))
       = [(2, Timeout)]"
    "active_timers (stopTimer (run [Click, Fire 1] (mount (Num 1) None ''Countdown'')))
       = [(2, Timeout)]"
    using pause_stop_cancel_tick[OF refl p] unfolding a by simp_all
  from p a s show ?thesis by blast
qed

text \<open>
  C2 as stated fails. A timer of one second is started and ticks once: the remaining
  time is 0 and the stop of the grace delay is queued under handle 2. The user presses
  stop: the queued callback is still in the table. The user starts the timer again, the
  queued callback runs and stops the timer that was just started.
\<close>

theorem grace_timeout_survives_stop:
  "phase_of (run [Click, Fire 1] (mount (Num 1) None ''Countdown'')) = Running
   \<and> active_timers (run [Click, Fire 1] (mount (Num 1) None ''Countdown''))
       = [(1, Interval), (2, Timeout)]
   \<and> active_timers (run [Click, Fire 1, Stop] (mount (Num 1) None ''Countdown''))
       = [(2, Timeout)]
   \<and> phase_of (run [Click, Fire 1, Stop, Click] (mount (Num 1) None ''Countdown'')) = Running
   \<and> phase_of (run [Click, Fire 1, Stop, Click, Fire 2] (mount (Num 1) None ''Countdown''))
       = Stopped"
  by (simp only: run.simps scenario) (simp add: phase_of_def)

subsection \<open>The total and the validation of the form\<close>

lemma term_exact:
  assumes "natural x" and "0 \<le> c" and "component x * c \<le> 2 ^ 53"
  shows "(if truthy x then js_times (ToNumber x) (Num c) else Num 0) = Num (component x * c)"
proof (cases x rule: natural.cases)
  case (1 n)
  with assms have "\<bar>n * c\<bar> \<le> 2 ^ 53" by (simp add: abs_mult)
  with 1 show ?thesis by (simp add: double_exact)
qed (use assms in simp_all)

lemma seconds_exact:
  assumes "natural x"
  shows "(if truthy x then ToNumber x else Num 0) = Num (component x)"
  using assms by (cases x rule: natural.cases) simp_all

lemma component_natural: "natural x \<Longrightarrow> 0 \<le> component x"
  by (cases x rule: natural.cases) simp_all

lemma calcTime_exact:
  assumes "natural h" and "natural m" and "natural s"
    and "component h * 3600 + component m * 60 + component s \<le> 2 ^ 53"
  shows "calcTime h m s = Num (component h * 3600 + component m * 60 + component s)"
proof -
  note c = component_natural[OF assms(1)] component_natural[OF assms(2)]
    component_natural[OF assms(3)]
  have h: "component h * 3600 \<le> 2 ^ 53" using c assms(4) by simp
  have m: "component m * 60 \<le> 2 ^ 53" using c assms(4) by simp
  have 1: "\<bar>component h * 3600 + component m * 60\<bar> \<le> 2 ^ 53" using c assms(4) by simp
  have 2: "\<bar>component h * 3600 + component m * 60 + component s\<bar> \<le> 2 ^ 53"
    using c assms(4) by simp
  have H: "(if truthy h then js_times (ToNumber h) (Num 3600) else Num 0)
      = Num (component h * 3600)"
    by (rule term_exact[OF assms(1) _ h]) simp
  have M: "(if truthy m then js_times (ToNumber m) (Num 60) else Num 0)
      = Num (component m * 60)"
    by (rule term_exact[OF assms(2) _ m]) simp
  show ?thesis
    unfolding calcTime_def Let_def H M seconds_exact[OF assms(3)]
    using 1 2 by (simp add: double_exact)
qed

lemma calcTime_at_2_53:
  "calcTime (Some (Num 9007199254740991)) (Some (Num 0)) (Some (Num 0))
     = Num 32425917317067567104"
  by code_simp

lemma saveTimer_cases:
  "saveTimer stringify uuid title h m s (a, ls) =
     (let time = calcTime (Some h) (Some m) (Some s) in
      if isNaN time \<or> js_le0 time then (a\<lparr>error := True\<rparr>, ls, [])
      else (a,
        Storage_set stringify Add_storage ls (Number_toString uuid)
          \<lparr>id_data = uuid, time_data = time,
           title_data = (case title of None \<Rightarrow> [] | Some t \<Rightarrow> t)\<rparr>,
        [OnBack, OnRefresh, OnMessage ''Timer successfully added'']))"
proof -
  have g: "\<And>x. (\<not> isNaN x \<and> js_gt0 x) = (\<not> (isNaN x \<or> js_le0 x))"
    subgoal for x by (cases x) auto
    done
  show ?thesis
    by (cases title) (simp_all add: saveTimer_def Let_def g)
qed

text \<open>The terms and the sums of components that are not negative are not negative.\<close>

lemma js_plus_ge0: "js_ge0 x \<Longrightarrow> js_ge0 y \<Longrightarrow> js_ge0 (js_plus x y)"
  by (cases x; cases y) (simp_all add: double_ge0)

lemma term_ge0:
  "not_negative x \<Longrightarrow> 0 < c \<Longrightarrow>
     js_ge0 (if truthy x then js_times (ToNumber x) (Num c) else Num 0)"
  by (cases x rule: not_negative.cases) (simp_all add: double_ge0)

lemma seconds_ge0: "not_negative x \<Longrightarrow> js_ge0 (if truthy x then ToNumber x else Num 0)"
  by (cases x rule: not_negative.cases) simp_all

lemma calcTime_ge0:
  "not_negative h \<Longrightarrow> not_negative m \<Longrightarrow> not_negative s \<Longrightarrow> js_ge0 (calcTime h m s)"
  by (simp add: calcTime_def Let_def js_plus_ge0 term_ge0 seconds_ge0)

lemma ge0_not_NaN: "js_ge0 x \<Longrightarrow> \<not> isNaN x"
  by (cases x) simp_all

text \<open>The terms and the sums of moderate components are finite.\<close>

lemma within_double: "\<bar>n\<bar> \<le> B \<Longrightarrow> 2 * B < 2 ^ 1024 \<Longrightarrow> within (2 * B) (double n)"
  using double_finite[of n B] by (simp add: within_def)

lemma within_plus:
  assumes "within B x" and "within C y" and "2 * (B + C) < 2 ^ 1024"
  shows "within (2 * (B + C)) (js_plus x y)"
proof -
  from assms(1,2) obtain a b where x: "x = Num a" "\<bar>a\<bar> \<le> B" and y: "y = Num b" "\<bar>b\<bar> \<le> C"
    by (auto simp: within_def)
  then have "\<bar>a + b\<bar> \<le> B + C" by simp
  from within_double[OF this assms(3)] x y show ?thesis by simp
qed

lemma term_within:
  assumes "moderate x" and "\<bar>c\<bar> \<le> 3600"
  shows "within (2 ^ 66) (if truthy x then js_times (ToNumber x) (Num c) else Num 0)"
proof (cases x rule: moderate.cases)
  case (1 n)
  with assms have "\<bar>n\<bar> * \<bar>c\<bar> \<le> 2 ^ 53 * 3600"
    by (intro mult_mono) simp_all
  then have "\<bar>n * c\<bar> \<le> 2 ^ 65" by (simp add: abs_mult)
  from within_double[OF this] 1 show ?thesis by (simp add: within_def)
qed (use assms in \<open>simp_all add: within_def\<close>)

lemma seconds_within:
  assumes "moderate x"
  shows "within (2 ^ 66) (if truthy x then ToNumber x else Num 0)"
  using assms by (cases x rule: moderate.cases) (simp_all add: within_def)

lemma calcTime_finite:
  assumes "moderate h" and "moderate m" and "moderate s"
  shows "\<not> isNaN (calcTime h m s)"
proof -
  let ?H = "if truthy h then js_times (ToNumber h) (Num 3600) else Num 0"
  let ?M = "if truthy m then js_times (ToNumber m) (Num 60) else Num 0"
  let ?S = "if truthy s then ToNumber s else Num 0"
  have 1: "within (2 * (2 ^ 66 + 2 ^ 66)) (js_plus ?H ?M)"
    by (rule within_plus[OF term_within[OF assms(1)] term_within[OF assms(2)]]) simp_all
  have 2: "within (2 * (2 * (2 ^ 66 + 2 ^ 66) + 2 ^ 66)) (js_plus (js_plus ?H ?M) ?S)"
    by (rule within_plus[OF 1 seconds_within[OF assms(3)]]) simp
  then show ?thesis by (auto simp: calcTime_def Let_def within_def)
qed

text \<open>
  C4, as the code has it: for components that are integers not below 0 and whose total
  is at most \<open>2 ^ 53\<close>, the total that \<open>calcTime\<close> computes is hours times 3600 plus
  minutes times 60 plus seconds, a component that is absent (or \<^verbatim>\<open>NaN\<close>) counting as 0.
\<close>

theorem calcTime_total:
  assumes "natural h" and "natural m" and "natural s"
    and "component h * 3600 + component m * 60 + component s \<le> 2 ^ 53"
  shows "calcTime h m s = Num (component h * 3600 + component m * 60 + component s)"
  using assms by (rule calcTime_exact)

theorem calcTime_total_witness:
  "natural (Some (Num 0)) \<and> natural (Some (Num 5)) \<and> natural None
   \<and> calcTime (Some (Num 0)) (Some (Num 5)) None = Num 300
   \<and> calcTime (Some (Num 1)) (Some (Num 2)) (Some (Num 3)) = Num 3723"
proof -
  have a: "natural (Some (Num 0))" "natural (Some (Num 5))" "natural None"
    "natural (Some (Num 1))" "natural (Some (Num 2))" "natural (Some (Num 3))"
    by simp_all
  have 1: "calcTime (Some (Num 0)) (Some (Num 5)) None = Num 300"
    using calcTime_total[OF a(1) a(2) a(3)] by simp
  have 2: "calcTime (Some (Num 1)) (Some (Num 2)) (Some (Num 3)) = Num 3723"
    using calcTime_total[OF a(4) a(5) a(6)] by simp
  from a 1 2 show ?thesis by blast
qed

text \<open>
  C4 as stated fails beyond \<open>2 ^ 53\<close>: for \<open>2 ^ 53 - 1\<close> hours the product with 3600 is
  rounded, and the total is not the exact one.
\<close>

theorem calcTime_rounds_at_2_53:
  "natural (Some (Num 9007199254740991)) \<and> natural (Some (Num 0))
   \<and> calcTime (Some (Num 9007199254740991)) (Some (Num 0)) (Some (Num 0))
       = Num 32425917317067567104
   \<and> calcTime (Some (Num 9007199254740991)) (Some (Num 0)) (Some (Num 0))
       \<noteq> Num (component (Some (Num 9007199254740991)) * 3600
              + component (Some (Num 0)) * 60 + component (Some (Num 0)))"
  by (simp add: calcTime_at_2_53)

text \<open>
  C5: \<open>saveTimer\<close> rejects exactly when the total is \<^verbatim>\<open>NaN\<close> or at most 0. It then
  sets the error flag of the form, which shows the message of the form, and leaves the
  storage as it is and calls nothing; otherwise it writes the record.
\<close>

theorem saveTimer_validation:
  "saveTimer stringify uuid title h m s (a, ls) =
     (let time = calcTime (Some h) (Some m) (Some s) in
      if isNaN time \<or> js_le0 time then (a\<lparr>error := True\<rparr>, ls, [])
      else (a,
        Storage_set stringify Add_storage ls (Number_toString uuid)
          \<lparr>id_data = uuid, time_data = time,
           title_data = (case title of None \<Rightarrow> [] | Some t \<Rightarrow> t)\<rparr>,
        [OnBack, OnRefresh, OnMessage ''Timer successfully added'']))
   \<and> error_message (fst (saveTimer stringify uuid title h m s (a, ls))) =
     (let time = calcTime (Some h) (Some m) (Some s) in
      if isNaN time \<or> js_le0 time then ''The timer needs a duration'' else error_message a)"
  by (simp add: saveTimer_cases Let_def error_message_def)

theorem saveTimer_validation_witness:
  "saveTimer TimerData_stringify (Num 41) (Some ''Tea'') (Num 0) (Num 0) (Num 0)
     (\<lparr>error = False\<rparr>, []) = (\<lparr>error = True\<rparr>, [], [])
   \<and> saveTimer TimerData_stringify (Num 41) (Some ''Tea'') NaN NaN NaN
     (\<lparr>error = False\<rparr>, []) = (\<lparr>error = True\<rparr>, [], [])
   \<and> saveTimer TimerData_stringify (Num 41) (Some ''Tea'') (Num 0) (Num 5) NaN
     (\<lparr>error = False\<rparr>, [])
     = (\<lparr>error = False\<rparr>, [(''timer-41'', TimerData_stringify tea)],
        [OnBack, OnRefresh, OnMessage ''Timer successfully added''])"
proof -
  note t = saveTimer_validation[where stringify = TimerData_stringify and uuid = "Num 41"
      and title = "Some ''Tea''" and a = "\<lparr>error = False\<rparr>" and ls = "[]"]
  have 1: "saveTimer TimerData_stringify (Num 41) (Some ''Tea'') (Num 0) (Num 0) (Num 0)
     (\<lparr>error = False\<rparr>, []) = (\<lparr>error = True\<rparr>, [], [])"
    by (subst t[of "Num 0" "Num 0" "Num 0", THEN conjunct1]) code_simp
  have 2: "saveTimer TimerData_stringify (Num 41) (Some ''Tea'') NaN NaN NaN
     (\<lparr>error = False\<rparr>, []) = (\<lparr>error = True\<rparr>, [], [])"
    by (subst t[of NaN NaN NaN, THEN conjunct1]) code_simp
  have 3: "saveTimer TimerData_stringify (Num 41) (Some ''Tea'') (Num 0) (Num 5) NaN
     (\<lparr>error = False\<rparr>, [])
     = (\<lparr>error = False\<rparr>, [(''timer-41'', TimerData_stringify tea)],
        [OnBack, OnRefresh, OnMessage ''Timer successfully added''])"
    by (subst t[of "Num 0" "Num 5" NaN, THEN conjunct1]) code_simp
  from 1 2 3 show ?thesis by blast
qed

lemma calcTime_tame: "tame h m s \<Longrightarrow> \<not> isNaN (calcTime h m s)"
  unfolding tame_def using calcTime_ge0[of h m s] ge0_not_NaN calcTime_finite[of h m s]
  by blast

text \<open>
  C9, as the code has it: \<open>calcTime\<close> does not return \<^verbatim>\<open>NaN\<close> when none of its
  components is negative, nor when each is an integer of magnitude at most \<open>2 ^ 53\<close>,
  absent or \<^verbatim>\<open>NaN\<close>; for such inputs \<open>saveTimer\<close> rejects exactly when the total is at
  most 0.
\<close>

theorem calcTime_not_NaN:
  assumes "tame h m s" and "tame (Some h') (Some m') (Some s')"
  shows "\<not> isNaN (calcTime h m s)
   \<and> saveTimer stringify uuid title h' m' s' (a, ls) =
     (let time = calcTime (Some h') (Some m') (Some s') in
      if js_le0 time then (a\<lparr>error := True\<rparr>, ls, [])
      else (a,
        Storage_set stringify Add_storage ls (Number_toString uuid)
          \<lparr>id_data = uuid, time_data = time,
           title_data = (case title of None \<Rightarrow> [] | Some t \<Rightarrow> t)\<rparr>,
        [OnBack, OnRefresh, OnMessage ''Timer successfully added'']))"
  using calcTime_tame[OF assms(1)] calcTime_tame[OF assms(2)]
  by (simp add: saveTimer_cases Let_def)

theorem calcTime_not_NaN_witness:
  "tame (Some NaN) None (Some (Num 7)) \<and> tame (Some NaN) (Some NaN) (Some NaN)
   \<and> \<not> isNaN (calcTime (Some NaN) None (Some (Num 7)))
   \<and> saveTimer TimerData_stringify (Num 41) None NaN NaN NaN (\<lparr>error = False\<rparr>, [])
       = (\<lparr>error = True\<rparr>, [], [])"
proof -
  have a: "tame (Some NaN) None (Some (Num 7))" "tame (Some NaN) (Some NaN) (Some NaN)"
    by (simp_all add: tame_def)
  have b: "(let time = calcTime (Some NaN) (Some NaN) (Some NaN) in
      if js_le0 time then (\<lparr>error = False\<rparr>\<lparr>error := True\<rparr>, [], [])
      else (\<lparr>error = False\<rparr>,
        Storage_set TimerData_stringify Add_storage [] (Number_toString (Num 41))
          \<lparr>id_data = Num 41, time_data = time,
           title_data = (case None of None \<Rightarrow> [] | Some t \<Rightarrow> t)\<rparr>,
        [OnBack, OnRefresh, OnMessage ''Timer successfully added'']))
     = (\<lparr>error = True\<rparr>, [], [])"
    by code_simp
  from calcTime_not_NaN[OF a, where stringify = TimerData_stringify and uuid = "Num 41"
      and title = None and a = "\<lparr>error = False\<rparr>" and ls = "[]"] a
  show ?thesis unfolding b by blast
qed

text \<open>
  C9 as stated fails at infinite components: the total of \<^verbatim>\<open>Infinity\<close> hours and
  \<^verbatim>\<open>-Infinity\<close> minutes is \<^verbatim>\<open>NaN\<close>, which is not at most 0, and \<open>saveTimer\<close> rejects.
\<close>

theorem calcTime_NaN_at_infinities:
  "calcTime (Some PInf) (Some NInf) (Some (Num 0)) = NaN
   \<and> isNaN (calcTime (Some PInf) (Some NInf) (Some (Num 0)))
   \<and> \<not> js_le0 (calcTime (Some PInf) (Some NInf) (Some (Num 0)))
   \<and> saveTimer TimerData_stringify (Num 41) None PInf NInf (Num 0) (\<lparr>error = False\<rparr>, [])
       = (\<lparr>error = True\<rparr>, [], [])"
proof -
  have c: "calcTime (Some PInf) (Some NInf) (Some (Num 0)) = NaN"
    by (simp add: calcTime_def)
  then show ?thesis by (simp add: saveTimer_def)
qed

subsection \<open>Keys and slots of the storage\<close>





lemma getItem_setItem: "getItem (setItem ls k v) k' = (if k' = k then Some v else getItem ls k')"
  by (simp add: getItem_def setItem_def update_conv')





text \<open>The codec reads back what it writes for a record with integer members.\<close>

lemma digits_small: "n < 10 \<Longrightarrow> digits n = [digit n]"
  by (subst digits.simps) simp

lemma digits_large: "\<not> n < 10 \<Longrightarrow> digits n = digits (n div 10) @ [digit (n mod 10)]"
  by (subst digits.simps) simp

lemma expect_append: "expect p (p @ rest) = Some rest"
  by (induction p) simp_all

lemma digit_is_digit: "d < 10 \<Longrightarrow> is_digit (digit d) \<and> of_char (digit d) - 48 = d"
  by (simp add: digit_def is_digit_def)

lemma read_digits_append:
  "\<forall>c \<in> set xs. is_digit c \<Longrightarrow>
     read_digits acc (xs @ rest)
       = read_digits (foldl (\<lambda>a c. 10 * a + (of_char c - 48)) acc xs) rest"
  by (induction xs arbitrary: acc) simp_all

lemma digits_value:
  "(\<forall>c \<in> set (digits n). is_digit c)
   \<and> foldl (\<lambda>a c. 10 * a + (of_char c - 48)) acc (digits n) = acc * 10 ^ length (digits n) + n"
proof (induction n arbitrary: acc rule: digits.induct)
  case (1 n)
  show ?case
  proof (cases "n < 10")
    case True
    then show ?thesis using digit_is_digit[of n] by (simp add: digits_small)
  next
    case False
    have m: "n mod 10 < 10" by simp
    from 1[OF False] digit_is_digit[OF m] show ?thesis
      by (simp add: digits_large[OF False] algebra_simps)
  qed
qed

lemma digits_nonempty: "digits n \<noteq> []"
  by (cases "n < 10") (simp_all add: digits_small digits_large)

lemma read_digits_stop:
  "rest = [] \<or> \<not> is_digit (hd rest) \<Longrightarrow> read_digits acc rest = (acc, rest)"
  by (cases rest) auto

lemma read_digits_digits:
  "rest = [] \<or> \<not> is_digit (hd rest) \<Longrightarrow> read_digits 0 (digits n @ rest) = (n, rest)"
  using digits_value[of n 0] by (simp add: read_digits_append read_digits_stop)

lemma hd_digits: "is_digit (hd (digits n))"
  using digits_value[of n 0] digits_nonempty[of n] by (cases "digits n") auto

lemma minus_not_digit: "\<not> is_digit CHR ''-''"
  by (simp add: is_digit_def)

lemma read_number_toString:
  assumes "rest = [] \<or> \<not> is_digit (hd rest)"
  shows "read_number (toString i @ rest) = Some (Num i, rest)"
proof (cases "i < 0")
  case True
  obtain c cs where d: "digits (nat (- i)) = c # cs" using digits_nonempty by (cases "digits (nat (- i))") auto
  with hd_digits[of "nat (- i)"] have c: "is_digit c" by simp
  have "read_digits 0 ((c # cs) @ rest) = (nat (- i), rest)"
    using read_digits_digits[OF assms, of "nat (- i)"] d by simp
  with True c show ?thesis
    by (simp add: read_number_def toString_def d del: read_digits.simps)
next
  case False
  obtain c cs where d: "digits (nat i) = c # cs" using digits_nonempty by (cases "digits (nat i)") auto
  with hd_digits[of "nat i"] have c: "is_digit c" by simp
  then have n: "c \<noteq> CHR ''-''" using minus_not_digit by auto
  have "read_digits 0 ((c # cs) @ rest) = (nat i, rest)"
    using read_digits_digits[OF assms, of "nat i"] d by simp
  with False c n show ?thesis
    by (simp add: read_number_def toString_def d del: read_digits.simps)
qed

lemma unescape_escape: "unescape (escape s @ dquote # rest) = Some (s, rest)"
  by (induction s) (simp_all add: dquote_def backslash_def)

lemma comma_not_digit: "\<not> is_digit CHR '',''"
  by (simp add: is_digit_def)

lemma read_TimerData_stringify:
  assumes "id_data d = Num i" and "time_data d = Num t"
  shows "read_TimerData (TimerData_stringify d) = Some d"
proof -
  let ?r4 = "escape (title_data d) @ dquote # ''}''"
  let ?p4 = "'','' @ member ''title'' @ [dquote]"
  let ?r3 = "?p4 @ ?r4"
  let ?r2 = "toString t @ ?r3"
  let ?p2 = "'','' @ member ''time''"
  let ?r1 = "?p2 @ ?r2"
  let ?r0 = "toString i @ ?r1"
  let ?p0 = "''{'' @ member ''id''"
  have s: "TimerData_stringify d = ?p0 @ ?r0"
    using assms by (simp add: TimerData_stringify_def)
  have 0: "expect ?p0 (?p0 @ ?r0) = Some ?r0" by (rule expect_append)
  have 1: "read_number ?r0 = Some (Num i, ?r1)"
    by (rule read_number_toString) (simp add: comma_not_digit)
  have 2: "expect ?p2 ?r1 = Some ?r2" by (rule expect_append)
  have 3: "read_number ?r2 = Some (Num t, ?r3)"
    by (rule read_number_toString) (simp add: comma_not_digit)
  have 4: "expect ?p4 ?r3 = Some ?r4" by (rule expect_append)
  have 5: "unescape ?r4 = Some (title_data d, ''}'')" by (rule unescape_escape)
  have "read_TimerData (?p0 @ ?r0)
      = Some \<lparr>id_data = Num i, time_data = Num t, title_data = title_data d\<rparr>"
    by (simp only: read_TimerData_def 0 1 2 3 4 5 option.case prod.case simp_thms if_True)
  with assms show ?thesis unfolding s by simp
qed

lemma stringify_not_null: "TimerData_stringify d \<noteq> ''null''"
  by (simp add: TimerData_stringify_def)

lemma JSON_roundtrip:
  assumes "id_data d = Num i" and "time_data d = Num t"
  shows "JSON_parse (JSON_stringify (Some d)) = Inr (Some d)"
  using read_TimerData_stringify[OF assms]
  by (simp add: JSON_parse_def JSON_stringify_def stringify_not_null)

lemma JSON_roundtrip_null: "JSON_parse (JSON_stringify None) = Inr None"
  by (simp add: JSON_parse_def JSON_stringify_def)

text \<open>
  C8: when \<^verbatim>\<open>JSON\<close> reads the text of a value back as that value, \<open>get\<close> after
  \<open>set\<close> with the same key and the same prefix returns the value.
\<close>

theorem set_get_roundtrip:
  assumes "parse (stringify v) = Inr v"
  shows "Storage_get parse st (Storage_set stringify st ls k v) k = Inr v"
  using assms by (simp add: Storage_get_def Storage_set_def getItem_setItem)

theorem set_get_roundtrip_witness:
  "JSON_parse (JSON_stringify
       (Some \<lparr>id_data = Num 1700000000123, time_data = Num 300, title_data = ''Tea''\<rparr>))
     = Inr (Some \<lparr>id_data = Num 1700000000123, time_data = Num 300, title_data = ''Tea''\<rparr>)
   \<and> Storage_get JSON_parse (Storage_new (Some ''timer''))
        (Storage_set JSON_stringify (Storage_new (Some ''timer'')) [] ''1700000000123''
           (Some \<lparr>id_data = Num 1700000000123, time_data = Num 300, title_data = ''Tea''\<rparr>))
        ''1700000000123''
     = Inr (Some \<lparr>id_data = Num 1700000000123, time_data = Num 300, title_data = ''Tea''\<rparr>)"
proof -
  let ?d = "\<lparr>id_data = Num 1700000000123, time_data = Num 300, title_data = ''Tea''\<rparr>"
  have h: "JSON_parse (JSON_stringify (Some ?d)) = Inr (Some ?d)"
    by (rule JSON_roundtrip[of _ 1700000000123 300]) simp_all
  from set_get_roundtrip[where parse = JSON_parse and stringify = JSON_stringify
      and v = "Some ?d" and st = "Storage_new (Some ''timer'')" and ls = "[]"
      and k = "''1700000000123''", OF h] h
  show ?thesis by blast
qed

subsection \<open>What a refresh publishes\<close>

declare drain.simps [simp del]

lemma drain_empty: "microtasks a = [] \<Longrightarrow> drain parse a = a"
  by (subst drain.simps) simp

lemma drain_step:
  "microtasks a = t # ts \<Longrightarrow> drain parse a = drain parse (exec parse t (a\<lparr>microtasks := ts\<rparr>))"
  by (subst drain.simps) simp

lemma drain_setStates:
  "microtasks a = replicate n SetStateThen \<Longrightarrow>
     published (drain parse a) = published a @ replicate n (landingData a)
     \<and> landingData (drain parse a) = landingData a
     \<and> microtasks (drain parse a) = []
     \<and> localStorage (drain parse a) = localStorage a"
proof (induction n arbitrary: a)
  case 0
  then show ?case by (simp add: drain_empty)
next
  case (Suc n)
  let ?b = "exec parse SetStateThen (a\<lparr>microtasks := replicate n SetStateThen\<rparr>)"
  have s: "drain parse a = drain parse ?b"
    using Suc.prems by (simp add: drain_step)
  have b: "microtasks ?b = replicate n SetStateThen" "landingData ?b = landingData a"
    "published ?b = published a @ [landingData a]" "localStorage ?b = localStorage a"
    by (simp_all add: setState_landingData_def)
  from Suc.IH[OF b(1)] show ?case
    unfolding s b by (simp add: replicate_app_Cons_same)
qed

lemma drain_pushes:
  "microtasks a = map PushThen ds @ replicate m SetStateThen \<Longrightarrow>
     published (drain parse a)
       = published a @ replicate (m + length ds) (landingData a @ ds)
     \<and> landingData (drain parse a) = landingData a @ ds
     \<and> microtasks (drain parse a) = []
     \<and> localStorage (drain parse a) = localStorage a"
proof (induction ds arbitrary: a m)
  case Nil
  then show ?case using drain_setStates[of a m parse] by simp
next
  case (Cons d ds)
  let ?b = "exec parse (PushThen d)
    (a\<lparr>microtasks := map PushThen ds @ replicate m SetStateThen\<rparr>)"
  have s: "drain parse a = drain parse ?b"
    using Cons.prems by (simp add: drain_step)
  have b: "microtasks ?b = map PushThen ds @ replicate (Suc m) SetStateThen"
    "landingData ?b = landingData a @ [d]"
    "published ?b = published a" "localStorage ?b = localStorage a"
    by (simp_all add: enqueue_def replicate_append_same)
  from Cons.IH[OF b(1)] show ?case
    unfolding s b by simp
qed

lemma drain_gets:
  "microtasks a = map GetResume keys @ map PushThen ds \<Longrightarrow>
     published (drain parse a)
       = published a
         @ replicate (length (ds @ fetched parse (localStorage a) keys))
             (landingData a @ ds @ fetched parse (localStorage a) keys)
     \<and> landingData (drain parse a) = landingData a @ ds @ fetched parse (localStorage a) keys
     \<and> microtasks (drain parse a) = []
     \<and> localStorage (drain parse a) = localStorage a"
proof (induction keys arbitrary: a ds)
  case Nil
  then show ?case using drain_pushes[of a ds 0 parse] by (simp add: fetched_def)
next
  case (Cons key keys)
  let ?a' = "a\<lparr>microtasks := map GetResume keys @ map PushThen ds\<rparr>"
  let ?b = "exec parse (GetResume key) ?a'"
  have s: "drain parse a = drain parse ?b"
    using Cons.prems by (simp add: drain_step)
  show ?case
  proof (cases "Storage_get parse App_storage (localStorage a) key")
    case (Inl e)
    then have b: "microtasks ?b = map GetResume keys @ map PushThen ds"
      "landingData ?b = landingData a"
      "published ?b = published a" "localStorage ?b = localStorage a"
      by (simp_all split: error.splits)
    have f: "fetched parse (localStorage a) (key # keys) = fetched parse (localStorage a) keys"
      using Inl by (simp add: fetched_def)
    from Cons.IH[OF b(1)] show ?thesis
      unfolding s b f by simp
  next
    case (Inr d)
    then have b: "microtasks ?b = map GetResume keys @ map PushThen (ds @ [d])"
      "landingData ?b = landingData a"
      "published ?b = published a" "localStorage ?b = localStorage a"
      by (simp_all add: enqueue_def)
    have f: "fetched parse (localStorage a) (key # keys)
        = d # fetched parse (localStorage a) keys"
      using Inr by (simp add: fetched_def)
    from Cons.IH[OF b(1)] show ?thesis
      unfolding s b f by simp
  qed
qed

lemma refresh_published:
  assumes "microtasks a = []"
  shows "published (refresh parse a) =
      published a @
      (let keys = Storage_keys App_storage (localStorage a);
           ds = fetched parse (localStorage a) keys
       in if keys = [] then [[]] else replicate (length ds) ds)
    \<and> landingData (refresh parse a) = fetched parse (localStorage a)
          (Storage_keys App_storage (localStorage a))
    \<and> microtasks (refresh parse a) = []"
proof -
  let ?keys = "Storage_keys App_storage (localStorage a)"
  let ?a0 = "a\<lparr>landingData := []\<rparr>"
  let ?a1 = "?a0\<lparr>microtasks := [KeysThen ?keys]\<rparr>"
  have 1: "refresh parse a = drain parse ?a1"
    using assms by (simp add: refresh_def getLandingData_def enqueue_def drain_step)
  show ?thesis
  proof (cases "?keys = []")
    case True
    have "drain parse ?a1 = drain parse (setState_landingData (?a0\<lparr>microtasks := []\<rparr>))"
      using True by (simp add: drain_step)
    also have "\<dots> = setState_landingData (?a0\<lparr>microtasks := []\<rparr>)"
      by (simp add: drain_empty setState_landingData_def)
    finally show ?thesis
      using True by (simp add: 1 setState_landingData_def fetched_def)
  next
    case False
    let ?a2 = "?a0\<lparr>microtasks := map GetResume ?keys @ map PushThen []\<rparr>"
    have 2: "drain parse ?a1 = drain parse ?a2"
      using False by (simp add: drain_step enqueue_def)
    have m: "microtasks ?a2 = map GetResume ?keys @ map PushThen []" by simp
    from drain_gets[OF m, of parse] False show ?thesis
      by (simp add: 1 2 Let_def)
  qed
qed

lemma one_timer_store:
  "(let keys = Storage_keys App_storage
        [(''app-theme'', ''dark''), (''timer-41'', TimerData_stringify tea)];
        ds = fetched JSON_parse
          [(''app-theme'', ''dark''), (''timer-41'', TimerData_stringify tea)] keys
    in if keys = [] then [[]] else replicate (length ds) ds) = [[Some tea]]"
  by code_simp

lemma two_timer_store:
  "(let keys = Storage_keys App_storage
        [(''timer-41'', TimerData_stringify tea), (''timer-42'', TimerData_stringify egg)];
        ds = fetched JSON_parse
          [(''timer-41'', TimerData_stringify tea), (''timer-42'', TimerData_stringify egg)] keys
    in if keys = [] then [[]] else replicate (length ds) ds)
   = [[Some tea, Some egg], [Some tea, Some egg]]"
  by code_simp

text \<open>
  C1, as the code has it: a refresh with no job pending hands the list to the Landing
  slide once for every key whose \<open>get\<close> resolves (once, and empty, when there is no
  key at all); every one of these lists is the full list of the data fetched, since
  all pushes run before the first \<^verbatim>\<open>setState\<close>.
\<close>

theorem refresh_publishes_per_key:
  assumes "microtasks a = []"
  shows "published (refresh parse a) =
      published a @
      (let keys = Storage_keys App_storage (localStorage a);
           ds = fetched parse (localStorage a) keys
       in if keys = [] then [[]] else replicate (length ds) ds)"
  using refresh_published[OF assms] by blast

theorem refresh_publishes_per_key_witness:
  "microtasks (App_over [(''app-theme'', ''dark''), (''timer-41'', TimerData_stringify tea)]) = []
   \<and> published (refresh JSON_parse
         (App_over [(''app-theme'', ''dark''), (''timer-41'', TimerData_stringify tea)]))
       = [[Some tea]]"
proof -
  have m: "microtasks (App_over [(''app-theme'', ''dark''), (''timer-41'', TimerData_stringify tea)]) = []"
    by (simp add: App_over_def)
  have l: "localStorage (App_over [(''app-theme'', ''dark''), (''timer-41'', TimerData_stringify tea)])
      = [(''app-theme'', ''dark''), (''timer-41'', TimerData_stringify tea)]"
    "published (App_over [(''app-theme'', ''dark''), (''timer-41'', TimerData_stringify tea)]) = []"
    by (simp_all add: App_over_def)
  from refresh_publishes_per_key[OF m, of JSON_parse] m show ?thesis
    unfolding l one_timer_store by simp
qed

text \<open>
  C1 as stated fails: over a storage with two timers a refresh publishes twice.
\<close>

theorem refresh_publishes_twice:
  "published (refresh JSON_parse
     (App_over [(''timer-41'', TimerData_stringify tea), (''timer-42'', TimerData_stringify egg)]))
   = [[Some tea, Some egg], [Some tea, Some egg]]
   \<and> length (published (refresh JSON_parse
     (App_over [(''timer-41'', TimerData_stringify tea), (''timer-42'', TimerData_stringify egg)])))
     \<noteq> 1"
proof -
  have m: "microtasks (App_over [(''timer-41'', TimerData_stringify tea), (''timer-42'', TimerData_stringify egg)]) = []"
    by (simp add: App_over_def)
  have l: "localStorage (App_over [(''timer-41'', TimerData_stringify tea), (''timer-42'', TimerData_stringify egg)])
      = [(''timer-41'', TimerData_stringify tea), (''timer-42'', TimerData_stringify egg)]"
    "published (App_over [(''timer-41'', TimerData_stringify tea), (''timer-42'', TimerData_stringify egg)]) = []"
    by (simp_all add: App_over_def)
  have "published (refresh JSON_parse
     (App_over [(''timer-41'', TimerData_stringify tea), (''timer-42'', TimerData_stringify egg)]))
   = [[Some tea, Some egg], [Some tea, Some egg]]"
    using refresh_published[OF m, of JSON_parse] unfolding l two_timer_store by simp
  then show ?thesis by simp
qed

end
